theory Spec2Isabelle
  imports Main "HOL-Library.Word"
begin

section \<open>Python values, HTTP messages and the client's state\<close>

text \<open>
  The client of \<^verbatim>\<open>src/media_api.py\<close> talks to a remote service through the
  \<^verbatim>\<open>requests\<close> library, prints to standard output, sleeps and writes files. None of
  this is pure, so the embedding threads an explicit state: the remote world (an abstract
  value that answers each request and moves on), the local files and the trace of observable
  events in the order the program performs them.
\<close>

type_synonym byte = "8 word"

text \<open>What \<^verbatim>\<open>response.json()\<close> yields. A parsed object is an association list read with
  \<^const>\<open>map_of\<close>; numbers are kept as integers, no function of the client computes with them.\<close>

datatype json =
    JNull
  | JBool bool
  | JInt int
  | JStr string
  | JArr "json list"
  | JObj "(string \<times> json) list"

text \<open>Python's truth value of an object, as used by \<^verbatim>\<open>job_status and ...\<close>.\<close>

fun truthy :: "json \<Rightarrow> bool" where
  "truthy JNull = False"
| "truthy (JBool b) = b"
| "truthy (JInt i) = (i \<noteq> 0)"
| "truthy (JStr s) = (s \<noteq> [])"
| "truthy (JArr xs) = (xs \<noteq> [])"
| "truthy (JObj kvs) = (kvs \<noteq> [])"

datatype http_method = GET | POST | PUT

text \<open>The arguments of one call of \<^verbatim>\<open>requests.get\<close>, \<^verbatim>\<open>requests.post\<close> or
  \<^verbatim>\<open>requests.put\<close>: \<^verbatim>\<open>params=\<close>, \<^verbatim>\<open>json=\<close>, \<^verbatim>\<open>data=\<close>, \<^verbatim>\<open>headers=\<close> and
  \<^verbatim>\<open>stream=\<close>. An argument that is not passed is \<open>[]\<close>, \<open>None\<close> or \<open>False\<close>.\<close>

record request =
  req_method :: http_method
  req_url :: string
  req_params :: "(string \<times> json) list"
  req_json :: "json option"
  req_data :: "byte list option"
  req_headers :: "(string \<times> string) list"
  req_stream :: bool

text \<open>The response object: \<^verbatim>\<open>status_code\<close>, \<^verbatim>\<open>reason\<close>, \<^verbatim>\<open>url\<close>, \<^verbatim>\<open>text\<close>, the
  result of \<^verbatim>\<open>json()\<close> (\<open>None\<close> when the body is not JSON) and the bytes that
  \<^verbatim>\<open>raw\<close> streams.\<close>

record response =
  status_code :: nat
  reason :: string
  resp_url :: string
  resp_text :: string
  resp_json :: "json option"
  resp_raw :: "byte list"

text \<open>Every exception the client can end with. \<open>PyException\<close> is the plain
  \<^verbatim>\<open>Exception(response.text)\<close> the client raises itself; \<open>HTTPError\<close> is what
  \<^verbatim>\<open>raise_for_status\<close> raises, with its message and the response it refers to;
  \<open>RequestException\<close> stands for the transport faults of \<^verbatim>\<open>requests\<close> (no connection,
  timeout, invalid URL), none of which is an \<^verbatim>\<open>HTTPError\<close>.\<close>

datatype error =
    PyException string
  | HTTPError string response
  | RequestException string
  | KeyError string
  | TypeError
  | JSONDecodeError
  | FileNotFoundError string
  | OSError string

text \<open>The arguments of one \<^verbatim>\<open>print\<close> call: string constants and values shown as they are.\<close>

datatype out_item = PStr string | PVal json

datatype event =
    Request request
  | Print "out_item list"
  | Sleep nat

record 'w state =
  world :: 'w
  files :: "string \<rightharpoonup> byte list"
  unwritable :: "string set"
  trace :: "event list"

text \<open>The remote side: given its state and a request, it answers with a response or with a
  transport fault, and moves to its next state.\<close>

type_synonym 'w http = "'w \<Rightarrow> request \<Rightarrow> (string + response) \<times> 'w"

section \<open>Library functions the client calls\<close>

text \<open>\<^verbatim>\<open>obj[key]\<close> with a string key: a dict without the key raises \<^verbatim>\<open>KeyError\<close>, any
  other JSON value raises \<^verbatim>\<open>TypeError\<close>.\<close>

fun subscript :: "json \<Rightarrow> string \<Rightarrow> error + json" where
  "subscript (JObj kvs) k = (case map_of kvs k of None \<Rightarrow> Inl (KeyError k) | Some v \<Rightarrow> Inr v)"
| "subscript _ k = Inl TypeError"

definition digit_char :: "nat \<Rightarrow> char" where
  "digit_char d = char_of (48 + d)"

fun show_nat :: "nat \<Rightarrow> string" where
  "show_nat n = (if n < 10 then [digit_char n] else show_nat (n div 10) @ [digit_char (n mod 10)])"

declare show_nat.simps [simp del]

definition http_error_msg :: "string \<Rightarrow> response \<Rightarrow> string" where
  "http_error_msg kind r =
     show_nat (status_code r) @ '' '' @ kind @ '': '' @ reason r @ '' for url: '' @ resp_url r"

text \<open>\<^verbatim>\<open>Response.raise_for_status\<close> of \<^verbatim>\<open>requests\<close>: an \<^verbatim>\<open>HTTPError\<close> for the status
  codes 400 to 599, nothing for any other code.\<close>

definition raise_for_status :: "response \<Rightarrow> error + unit" where
  "raise_for_status r =
     (if 400 \<le> status_code r \<and> status_code r < 500
        then Inl (HTTPError (http_error_msg ''Client Error'' r) r)
      else if 500 \<le> status_code r \<and> status_code r < 600
        then Inl (HTTPError (http_error_msg ''Server Error'' r) r)
      else Inr ())"

definition response_json :: "response \<Rightarrow> error + json" where
  "response_json r = (case resp_json r of None \<Rightarrow> Inl JSONDecodeError | Some j \<Rightarrow> Inr j)"

text \<open>One call into \<^verbatim>\<open>requests\<close>: the request is recorded in the trace, the world answers.\<close>

definition requests_call :: "'w http \<Rightarrow> request \<Rightarrow> 'w state \<Rightarrow> (error + response) \<times> 'w state" where
  "requests_call http rq s =
     (case http (world s) rq of
        (Inl msg, w') \<Rightarrow> (Inl (RequestException msg), s\<lparr>world := w', trace := trace s @ [Request rq]\<rparr>)
      | (Inr resp, w') \<Rightarrow> (Inr resp, s\<lparr>world := w', trace := trace s @ [Request rq]\<rparr>))"

definition py_print :: "out_item list \<Rightarrow> 'w state \<Rightarrow> 'w state" where
  "py_print items s = s\<lparr>trace := trace s @ [Print items]\<rparr>"

definition time_sleep :: "nat \<Rightarrow> 'w state \<Rightarrow> 'w state" where
  "time_sleep secs s = s\<lparr>trace := trace s @ [Sleep secs]\<rparr>"

text \<open>\<^verbatim>\<open>shutil.copyfileobj(fsrc, fdst, length=0)\<close>: a length of 0 means the default buffer
  size; then \<^verbatim>\<open>while buf := fsrc.read(length): fdst.write(buf)\<close>. The source is the list of
  bytes still to be read, the destination the bytes written so far.\<close>

definition COPY_BUFSIZE :: nat where
  "COPY_BUFSIZE = 64 * 1024"

function copy_loop :: "byte list \<Rightarrow> byte list \<Rightarrow> nat \<Rightarrow> byte list" where
  "copy_loop fsrc fdst n =
     (let buf = take n fsrc
      in if buf \<noteq> [] then copy_loop (drop n fsrc) (fdst @ buf) n else fdst)"
  by pat_completeness auto
termination
  by (relation "measure (\<lambda>(fsrc, fdst, n). length fsrc)") auto

declare copy_loop.simps [simp del]

definition copyfileobj :: "byte list \<Rightarrow> byte list \<Rightarrow> nat \<Rightarrow> byte list" where
  "copyfileobj fsrc fdst len = copy_loop fsrc fdst (if len = 0 then COPY_BUFSIZE else len)"

section \<open>The client: class MediaAPI\<close>

definition REQUEST_HEADERS :: "string \<Rightarrow> (string \<times> string) list" where
  "REQUEST_HEADERS api_key =
     [(''x-api-key'', api_key),
      (''Content-Type'', ''application/json''),
      (''Accept'', ''application/json'')]"

subsection \<open>download_media\<close>

definition download_request :: "string \<Rightarrow> string \<Rightarrow> request" where
  "download_request api_key transcoded_media_url =
     \<lparr>req_method = GET, req_url = ''https://api.dolby.com/media/output'',
      req_params = [(''url'', JStr transcoded_media_url)], req_json = None, req_data = None,
      req_headers = REQUEST_HEADERS api_key, req_stream = True\<rparr>"

text \<open>\<^verbatim>\<open>download_media\<close> (lines 64 to 84), with the buffer length of the copy as a parameter;
  the source passes none, which is length 0. Opening the destination for writing empties it,
  or fails when the path cannot be written.\<close>

definition download_media_with ::
  "nat \<Rightarrow> 'w http \<Rightarrow> string \<Rightarrow> string \<Rightarrow> string \<Rightarrow> 'w state \<Rightarrow> (error + unit) \<times> 'w state" where
  "download_media_with len http api_key output_path transcoded_media_url s =
     (case requests_call http (download_request api_key transcoded_media_url) s of
        (Inl e, s1) \<Rightarrow> (Inl e, s1)
      | (Inr resp, s1) \<Rightarrow>
          (case raise_for_status resp of
             Inl e \<Rightarrow> (Inl e, s1)
           | Inr _ \<Rightarrow>
               let s2 = py_print [PStr (CHR 0x0A # ''Downloading from '' @ resp_url resp
                                          @ '' into '' @ output_path)] s1
               in if output_path \<in> unwritable s2 then (Inl (OSError output_path), s2)
                  else (Inr (), s2\<lparr>files := (files s2)(output_path \<mapsto>
                                      copyfileobj (resp_raw resp) [] len)\<rparr>)))"

definition download_media ::
  "'w http \<Rightarrow> string \<Rightarrow> string \<Rightarrow> string \<Rightarrow> 'w state \<Rightarrow> (error + unit) \<times> 'w state" where
  "download_media = download_media_with 0"

subsection \<open>check_job_status\<close>

definition status_request :: "string \<Rightarrow> json \<Rightarrow> string \<Rightarrow> request" where
  "status_request api_key job_id endpoint_url =
     \<lparr>req_method = GET, req_url = endpoint_url,
      req_params = [(''job_id'', job_id)], req_json = None, req_data = None,
      req_headers = REQUEST_HEADERS api_key, req_stream = False\<rparr>"

text \<open>\<^verbatim>\<open>check_job_status\<close> (lines 42 to 62). The \<^verbatim>\<open>except\<close> clause catches the
  \<^verbatim>\<open>HTTPError\<close> of \<^verbatim>\<open>raise_for_status\<close> and raises \<^verbatim>\<open>Exception(response.text)\<close>
  in its place; a transport fault of \<^verbatim>\<open>requests.get\<close> is not caught.\<close>

definition check_job_status ::
  "'w http \<Rightarrow> string \<Rightarrow> json \<Rightarrow> string \<Rightarrow> 'w state \<Rightarrow> (error + json) \<times> 'w state" where
  "check_job_status http api_key job_id endpoint_url s =
     (case requests_call http (status_request api_key job_id endpoint_url) s of
        (Inl e, s1) \<Rightarrow> (Inl e, s1)
      | (Inr resp, s1) \<Rightarrow>
          (case raise_for_status resp of
             Inl e \<Rightarrow>
               (case e of
                  HTTPError msg r \<Rightarrow> (Inl (PyException (resp_text resp)), s1)
                | _ \<Rightarrow> (Inl e, s1))
           | Inr _ \<Rightarrow> (response_json resp, s1)))"

subsection \<open>The polling loop of transcode and diagnose\<close>

text \<open>The two \<^verbatim>\<open>while True\<close> loops (lines 110 to 118 and 144 to 153) are the same text up
  to what they do once the status is \<^verbatim>\<open>"Success"\<close>. One pass through the body either
  aborts with the exception of the status query or of \<^verbatim>\<open>job_response["status"]\<close>, or
  reaches the success branch with the snapshot, or prints the snapshot, sleeps 10 seconds
  and goes round again.\<close>

datatype 'w pass = Aborted error "'w state" | Succeeded json "'w state" | Retry "'w state"

definition poll_once :: "'w http \<Rightarrow> string \<Rightarrow> json \<Rightarrow> string \<Rightarrow> 'w state \<Rightarrow> 'w pass" where
  "poll_once http api_key job_id url s =
     (case check_job_status http api_key job_id url s of
        (Inl e, s1) \<Rightarrow> Aborted e s1
      | (Inr job_response, s1) \<Rightarrow>
          (case subscript job_response ''status'' of
             Inl e \<Rightarrow> Aborted e s1
           | Inr job_status \<Rightarrow>
               if truthy job_status \<and> job_status = JStr ''Success''
               then Succeeded job_response s1
               else Retry (time_sleep 10 (py_print [PVal job_response] s1))))"

text \<open>The loop itself has no bound: a run that never ends has the value \<open>None\<close>.\<close>

partial_function (option) poll_loop ::
  "'w http \<Rightarrow> string \<Rightarrow> (json \<Rightarrow> 'w state \<Rightarrow> (error + 'a) \<times> 'w state) \<Rightarrow> json \<Rightarrow> string
     \<Rightarrow> 'w state \<Rightarrow> ((error + 'a) \<times> 'w state) option" where
  "poll_loop http api_key on_success job_id url s =
     (case poll_once http api_key job_id url s of
        Aborted e s1 \<Rightarrow> Some (Inl e, s1)
      | Succeeded job_response s1 \<Rightarrow> Some (on_success job_response s1)
      | Retry s1 \<Rightarrow> poll_loop http api_key on_success job_id url s1)"

text \<open>The state after \<open>n\<close> passes in a row that all ended in the retry branch.\<close>

fun retries :: "nat \<Rightarrow> 'w http \<Rightarrow> string \<Rightarrow> json \<Rightarrow> string \<Rightarrow> 'w state \<Rightarrow> 'w state option" where
  "retries 0 http api_key job_id url s = Some s"
| "retries (Suc n) http api_key job_id url s =
     (case poll_once http api_key job_id url s of
        Retry s1 \<Rightarrow> retries n http api_key job_id url s1
      | _ \<Rightarrow> None)"

text \<open>How a run of the loop that ends has ended.\<close>

definition ended_by ::
  "'w http \<Rightarrow> string \<Rightarrow> (json \<Rightarrow> 'w state \<Rightarrow> (error + 'a) \<times> 'w state) \<Rightarrow> json \<Rightarrow> string
     \<Rightarrow> 'w state \<Rightarrow> (error + 'a) \<times> 'w state \<Rightarrow> bool" where
  "ended_by http api_key f job_id url sn r =
     (case poll_once http api_key job_id url sn of
        Aborted e s1 \<Rightarrow> r = (Inl e, s1)
      | Succeeded jr s1 \<Rightarrow> subscript jr ''status'' = Inr (JStr ''Success'') \<and> r = f jr s1
      | Retry s1 \<Rightarrow> False)"


subsection \<open>transcode\<close>

definition transcode_url :: string where
  "transcode_url = ''https://api.dolby.com/media/transcode''"

definition post_request :: "string \<Rightarrow> string \<Rightarrow> json \<Rightarrow> request" where
  "post_request api_key url body =
     \<lparr>req_method = POST, req_url = url, req_params = [], req_json = Some body,
      req_data = None, req_headers = REQUEST_HEADERS api_key, req_stream = False\<rparr>"

text \<open>Lines 96 to 104 of \<^verbatim>\<open>transcode\<close>: the creation request, with the same
  \<^verbatim>\<open>try\<close>/\<^verbatim>\<open>except\<close> as the status query, and \<^verbatim>\<open>response.json()["job_id"]\<close>. The request
  body is passed on as it is.\<close>

definition transcode_create :: "'w http \<Rightarrow> string \<Rightarrow> json \<Rightarrow> 'w state \<Rightarrow> (error + json) \<times> 'w state" where
  "transcode_create http api_key request_body s =
     (case requests_call http (post_request api_key transcode_url request_body) s of
        (Inl e, s1) \<Rightarrow> (Inl e, s1)
      | (Inr resp, s1) \<Rightarrow>
          (case raise_for_status resp of
             Inl e \<Rightarrow>
               (case e of
                  HTTPError msg r \<Rightarrow> (Inl (PyException (resp_text resp)), s1)
                | _ \<Rightarrow> (Inl e, s1))
           | Inr _ \<Rightarrow>
               (case response_json resp of
                  Inl e \<Rightarrow> (Inl e, s1)
                | Inr j \<Rightarrow>
                    (case subscript j ''job_id'' of
                       Inl e \<Rightarrow> (Inl e, s1)
                     | Inr job_id \<Rightarrow> (Inr job_id, s1)))))"

text \<open>\<^verbatim>\<open>transcode\<close> (lines 86 to 118). It returns what \<^verbatim>\<open>download_media\<close> returns.\<close>

definition transcode ::
  "'w http \<Rightarrow> string \<Rightarrow> string \<Rightarrow> string \<Rightarrow> json \<Rightarrow> 'w state \<Rightarrow> ((error + unit) \<times> 'w state) option" where
  "transcode http api_key transcoded_media_url output_path request_body s =
     (case transcode_create http api_key request_body s of
        (Inl e, s1) \<Rightarrow> Some (Inl e, s1)
      | (Inr job_id, s1) \<Rightarrow>
          let s2 = py_print [PStr (CHR 0x0A # ''Transcoding your media file...'')] s1;
              s3 = py_print [PStr ''Job ID: '', PVal job_id] s2
          in poll_loop http api_key
               (\<lambda>job_response. download_media http api_key output_path transcoded_media_url)
               job_id transcode_url s3)"

subsection \<open>diagnose\<close>

definition diagnose_url :: string where
  "diagnose_url = ''https://api.dolby.com/media/diagnose''"

text \<open>Lines 130 to 138 of \<^verbatim>\<open>diagnose\<close>: here \<^verbatim>\<open>raise_for_status\<close> stands alone, so its
  \<^verbatim>\<open>HTTPError\<close> leaves the function as it is.\<close>

definition diagnose_create :: "'w http \<Rightarrow> string \<Rightarrow> string \<Rightarrow> 'w state \<Rightarrow> (error + json) \<times> 'w state" where
  "diagnose_create http api_key dolby_input_url s =
     (case requests_call http
             (post_request api_key diagnose_url (JObj [(''input'', JStr dolby_input_url)])) s of
        (Inl e, s1) \<Rightarrow> (Inl e, s1)
      | (Inr resp, s1) \<Rightarrow>
          (case raise_for_status resp of
             Inl e \<Rightarrow> (Inl e, s1)
           | Inr _ \<Rightarrow>
               (case response_json resp of
                  Inl e \<Rightarrow> (Inl e, s1)
                | Inr j \<Rightarrow>
                    (case subscript j ''job_id'' of
                       Inl e \<Rightarrow> (Inl e, s1)
                     | Inr job_id \<Rightarrow> (Inr job_id, s1)))))"

text \<open>The success branch of \<^verbatim>\<open>diagnose\<close> (lines 149 and 150).\<close>

definition diagnose_result :: "json \<Rightarrow> 'w state \<Rightarrow> (error + json) \<times> 'w state" where
  "diagnose_result job_response s =
     (case subscript job_response ''result'' of
        Inl e \<Rightarrow> (Inl e, s)
      | Inr result \<Rightarrow>
          (case subscript result ''media_info'' of
             Inl e \<Rightarrow> (Inl e, s)
           | Inr media_info \<Rightarrow>
               (Inr media_info,
                py_print [PStr (CHR 0x0A # ''Media Info: ''), PVal media_info] s)))"

definition diagnose ::
  "'w http \<Rightarrow> string \<Rightarrow> string \<Rightarrow> 'w state \<Rightarrow> ((error + json) \<times> 'w state) option" where
  "diagnose http api_key dolby_input_url s =
     (case diagnose_create http api_key dolby_input_url s of
        (Inl e, s1) \<Rightarrow> Some (Inl e, s1)
      | (Inr job_id, s1) \<Rightarrow>
          let s2 = py_print [PStr (CHR 0x0A # ''Diagnosing your media file...'')] s1;
              s3 = py_print [PStr ''Job ID: '', PVal job_id] s2
          in poll_loop http api_key diagnose_result job_id diagnose_url s3)"

subsection \<open>prepare_media\<close>



section \<open>A scripted remote side for concrete runs\<close>

text \<open>The world is the list of answers still to come; each request takes the next one, and
  the connection fails once the list is used up.\<close>

fun scripted :: "(string + response) list http" where
  "scripted [] rq = (Inl ''connection refused'', [])"
| "scripted (a # as) rq = (a, as)"

definition ok_json :: "json \<Rightarrow> response" where
  "ok_json j = \<lparr>status_code = 200, reason = ''OK'', resp_url = [], resp_text = [],
                resp_json = Some j, resp_raw = []\<rparr>"

definition ok_bytes :: "byte list \<Rightarrow> response" where
  "ok_bytes bs = \<lparr>status_code = 200, reason = ''OK'',
                  resp_url = ''https://api.dolby.com/media/output'', resp_text = [],
                  resp_json = None, resp_raw = bs\<rparr>"

definition init :: "'w \<Rightarrow> 'w state" where
  "init w = \<lparr>world = w, files = Map.empty, unwritable = {}, trace = []\<rparr>"

definition running :: json where
  "running = JObj [(''status'', JStr ''Running'')]"

definition succeeded :: json where
  "succeeded = JObj [(''status'', JStr ''Success''),
                     (''result'', JObj [(''media_info'', JObj [(''codec'', JStr ''h264'')])])]"

definition created :: json where
  "created = JObj [(''job_id'', JStr ''J1'')]"


text \<open>The answer of the submission-failure scenario: HTTP 422 with an error body.\<close>

definition unprocessable :: "string \<Rightarrow> response" where
  "unprocessable url =
     \<lparr>status_code = 422, reason = ''Unprocessable Entity'', resp_url = url,
      resp_text = ''{'' @ [CHR 0x22] @ ''error'' @ [CHR 0x22] @ '':'' @ [CHR 0x22]
                  @ ''invalid url'' @ [CHR 0x22] @ ''}'',
      resp_json = Some (JObj [(''error'', JStr ''invalid url'')]), resp_raw = []\<rparr>"

text \<open>An answer with a status code outside 200 to 299 for which \<^verbatim>\<open>raise_for_status\<close>
  raises nothing: 300 with a JSON body.\<close>

definition multiple_choices :: "json \<Rightarrow> response" where
  "multiple_choices j =
     \<lparr>status_code = 300, reason = ''Multiple Choices'', resp_url = [], resp_text = [],
      resp_json = Some j, resp_raw = []\<rparr>"

text \<open>The observers used to state what a run did: the state a pass ends in, and the
  requests among the events of a trace.\<close>

fun pass_state :: "'w pass \<Rightarrow> 'w state" where
  "pass_state (Aborted e s) = s"
| "pass_state (Succeeded jr s) = s"
| "pass_state (Retry s) = s"

fun requests_of :: "event list \<Rightarrow> request list" where
  "requests_of [] = []"
| "requests_of (Request rq # evs) = rq # requests_of evs"
| "requests_of (ev # evs) = requests_of evs"





lemmas client_defs =
  check_job_status_def requests_call_def raise_for_status_def response_json_def
  py_print_def time_sleep_def poll_once_def status_request_def post_request_def
  init_def ok_json_def ok_bytes_def running_def succeeded_def created_def

lemmas download_defs = download_media_def download_media_with_def download_request_def

section \<open>The streamed copy\<close>

lemma copy_loop_append: "0 < n \<Longrightarrow> copy_loop fsrc fdst n = fdst @ fsrc"
proof (induction fsrc fdst n rule: copy_loop.induct)
  case (1 fsrc fdst n)
  show ?case
  proof (cases "take n fsrc = []")
    case True
    with \<open>0 < n\<close> have "fsrc = []" by simp
    then show ?thesis by (simp add: copy_loop.simps)
  next
    case False
    then have "copy_loop fsrc fdst n = copy_loop (drop n fsrc) (fdst @ take n fsrc) n"
      by (subst copy_loop.simps) (simp add: Let_def)
    also have "\<dots> = (fdst @ take n fsrc) @ drop n fsrc"
      using "1.IH" [OF refl False] \<open>0 < n\<close> by simp
    finally show ?thesis by simp
  qed
qed

lemma copyfileobj_append: "copyfileobj fsrc fdst len = fdst @ fsrc"
  by (simp add: copyfileobj_def COPY_BUFSIZE_def copy_loop_append)

section \<open>The polling loop\<close>

lemma raise_for_status_2xx:
  "200 \<le> status_code resp \<Longrightarrow> status_code resp < 300 \<Longrightarrow> raise_for_status resp = Inr ()"
  by (simp add: raise_for_status_def)

lemma raise_for_status_error:
  "400 \<le> status_code resp \<Longrightarrow> status_code resp < 600 \<Longrightarrow>
     \<exists>msg. raise_for_status resp = Inl (HTTPError msg resp)"
  by (simp add: raise_for_status_def)

lemma check_job_status_error:
  assumes "http (world s) (status_request api_key job_id url) = (Inr resp, w')"
    and "400 \<le> status_code resp" and "status_code resp < 600"
  shows "check_job_status http api_key job_id url s =
           (Inl (PyException (resp_text resp)),
            s\<lparr>world := w', trace := trace s @ [Request (status_request api_key job_id url)]\<rparr>)"
  using assms raise_for_status_error [of resp]
  by (auto simp: check_job_status_def requests_call_def)

lemma poll_loop_Retry:
  "poll_once http api_key job_id url s = Retry s1 \<Longrightarrow>
     poll_loop http api_key f job_id url s = poll_loop http api_key f job_id url s1"
  by (subst poll_loop.simps) simp

lemma poll_loop_Succeeded:
  "poll_once http api_key job_id url s = Succeeded jr s1 \<Longrightarrow>
     poll_loop http api_key f job_id url s = Some (f jr s1)"
  by (subst poll_loop.simps) simp


lemma poll_loop_retries:
  "retries n http api_key job_id url s = Some sn \<Longrightarrow>
     poll_loop http api_key f job_id url s = poll_loop http api_key f job_id url sn"
proof (induction n arbitrary: s)
  case 0
  then show ?case by simp
next
  case (Suc n)
  then obtain s1 where step: "poll_once http api_key job_id url s = Retry s1"
    and rest: "retries n http api_key job_id url s1 = Some sn"
    by (auto split: pass.splits)
  from poll_loop_Retry [OF step, where f = f] Suc.IH [OF rest] show ?case by (rule trans)
qed

lemma retries_Suc_last:
  "retries (Suc n) http api_key job_id url s =
     (case retries n http api_key job_id url s of
        None \<Rightarrow> None
      | Some sn \<Rightarrow> (case poll_once http api_key job_id url sn of Retry s1 \<Rightarrow> Some s1 | _ \<Rightarrow> None))"
proof (induction n arbitrary: s)
  case 0
  show ?case by (simp split: pass.splits)
next
  case (Suc n)
  show ?case
  proof (cases "poll_once http api_key job_id url s")
    case (Retry s1)
    then show ?thesis using Suc.IH [of s1] by simp
  qed simp_all
qed

lemma poll_once_Succeeded_status:
  "poll_once http api_key job_id url s = Succeeded jr s1 \<Longrightarrow>
     subscript jr ''status'' = Inr (JStr ''Success'')"
  by (auto simp: poll_once_def split: prod.splits sum.splits if_splits)

lemma poll_loop_ends:
  assumes "poll_loop http api_key f job_id url s = Some r"
  shows "\<exists>n sn. retries n http api_key job_id url s = Some sn
                \<and> ended_by http api_key f job_id url sn r"
proof (induct rule: poll_loop.raw_induct [OF _ assms])
  case (1 loop http api_key f job_id url s r)
  note IH = 1(1) and body = 1(2)
  show ?case
  proof (cases "poll_once http api_key job_id url s")
    case (Aborted e s1)
    with body have "ended_by http api_key f job_id url s r"
      by (auto simp: ended_by_def)
    then show ?thesis using retries.simps(1) by blast
  next
    case (Succeeded jr s1)
    with body poll_once_Succeeded_status [OF Succeeded]
    have "ended_by http api_key f job_id url s r"
      by (auto simp: ended_by_def)
    then show ?thesis using retries.simps(1) by blast
  next
    case (Retry s1)
    with body have "loop http api_key f job_id url s1 = Some r" by simp
    from IH [OF this] obtain n sn
      where "retries n http api_key job_id url s1 = Some sn"
        and "ended_by http api_key f job_id url sn r" by blast
    with Retry have "retries (Suc n) http api_key job_id url s = Some sn" by simp
    with \<open>ended_by http api_key f job_id url sn r\<close> show ?thesis by blast
  qed
qed







section \<open>Downloading\<close>

text \<open>
  C8. A download that completes leaves in the destination file exactly the bytes of the
  response body, whatever buffer length the copy uses; in particular with the default
  length that \<^verbatim>\<open>download_media\<close> uses.
\<close>

theorem download_media_bytes:
  assumes "http (world s) (download_request api_key transcoded_media_url) = (Inr resp, w')"
    and "download_media_with len http api_key output_path transcoded_media_url s = (Inr (), s')"
  shows "files s' output_path = Some (resp_raw resp)
       \<and> download_media http api_key output_path transcoded_media_url s = (Inr (), s')"
  using assms
  by (auto simp: download_media_def download_media_with_def requests_call_def Let_def
      copyfileobj_append split: sum.splits if_splits)

text \<open>Three bytes copied with a buffer of two.\<close>

theorem download_media_bytes_witness:
  "scripted [Inr (ok_bytes [0, 1, 255])] (download_request ''key'' ''dlb://out/v.mp4'')
     = (Inr (ok_bytes [0, 1, 255]), [])
   \<and> download_media_with 2 scripted ''key'' ''out.mp4'' ''dlb://out/v.mp4''
        (init [Inr (ok_bytes [0, 1, 255])])
     = (Inr (), snd (download_media_with 2 scripted ''key'' ''out.mp4'' ''dlb://out/v.mp4''
                      (init [Inr (ok_bytes [0, 1, 255])])))
   \<and> files (snd (download_media_with 2 scripted ''key'' ''out.mp4'' ''dlb://out/v.mp4''
                    (init [Inr (ok_bytes [0, 1, 255])]))) ''out.mp4'' = Some [0, 1, 255]
   \<and> fst (download_media scripted ''key'' ''out.mp4'' ''dlb://out/v.mp4''
             (init [Inr (ok_bytes [0, 1, 255])])) = Inr ()"
proof -
  let ?ini = "init [Inr (ok_bytes [0, 1, 255])] :: (string + response) list state"
  let ?run = "download_media_with 2 scripted ''key'' ''out.mp4'' ''dlb://out/v.mp4'' ?ini"
  have a: "scripted (world ?ini) (download_request ''key'' ''dlb://out/v.mp4'')
             = (Inr (ok_bytes [0, 1, 255]), [])"
    by (simp add: init_def)
  have "fst ?run = Inr ()"
    by (simp add: download_media_with_def client_defs Let_def)
  then have b: "?run = (Inr (), snd ?run)"
    by (metis prod.collapse)
  have a0: "scripted [Inr (ok_bytes [0, 1, 255])] (download_request ''key'' ''dlb://out/v.mp4'')
              = (Inr (ok_bytes [0, 1, 255]), [])"
    by simp
  note T = download_media_bytes [OF a b]
  from T have "files (snd ?run) ''out.mp4'' = Some (resp_raw (ok_bytes [0, 1, 255]))"
    by (rule conjunct1)
  then have c: "files (snd ?run) ''out.mp4'' = Some [0, 1, 255]"
    by (simp add: ok_bytes_def)
  from T have "download_media scripted ''key'' ''out.mp4'' ''dlb://out/v.mp4'' ?ini
                 = (Inr (), snd ?run)"
    by (rule conjunct2)
  then have d: "fst (download_media scripted ''key'' ''out.mp4'' ''dlb://out/v.mp4'' ?ini) = Inr ()"
    by simp
  show ?thesis
    apply (intro conjI)
       apply (rule a0)
      apply (rule b)
     apply (rule c)
    apply (rule d)
    done
qed

section \<open>Failing requests\<close>


lemma transcode_create_error:
  assumes "http (world s) (post_request api_key transcode_url body) = (Inr resp, w')"
    and "400 \<le> status_code resp" and "status_code resp < 600"
  shows "transcode_create http api_key body s =
           (Inl (PyException (resp_text resp)),
            s\<lparr>world := w', trace := trace s @ [Request (post_request api_key transcode_url body)]\<rparr>)"
  using assms raise_for_status_error [of resp]
  by (auto simp: transcode_create_def requests_call_def)

lemma show_nat_422: "show_nat 422 = ''422''"
  by code_simp

lemma raise_for_status_unprocessable:
  "raise_for_status (unprocessable url) =
     Inl (HTTPError (''422 Client Error: Unprocessable Entity for url: '' @ url) (unprocessable url))"
  by (simp add: raise_for_status_def http_error_msg_def unprocessable_def show_nat_422)




section \<open>Missing keys\<close>






section \<open>The error of a failed request\<close>

text \<open>
  C2, as amended. When the answer to the status query, or to the creation request of
  \<^verbatim>\<open>transcode\<close>, has a status code from 400 to 599, the call ends with
  \<^verbatim>\<open>Exception(response.text)\<close>: the exception carries the text of the response body.
\<close>

theorem http_error_payload:
  assumes "400 \<le> status_code resp" and "status_code resp < 600"
  shows "(http (world s) (status_request api_key job_id url) = (Inr resp, w')
          \<longrightarrow> fst (check_job_status http api_key job_id url s) = Inl (PyException (resp_text resp)))
       \<and> (http (world s) (post_request api_key transcode_url body) = (Inr resp, w')
          \<longrightarrow> map_option fst (transcode http api_key transcoded_media_url output_path body s)
                = Some (Inl (PyException (resp_text resp))))"
proof (intro conjI impI)
  assume "http (world s) (status_request api_key job_id url) = (Inr resp, w')"
  from check_job_status_error [where http = http and s = s, OF this assms]
  show "fst (check_job_status http api_key job_id url s) = Inl (PyException (resp_text resp))"
    by simp
next
  assume "http (world s) (post_request api_key transcode_url body) = (Inr resp, w')"
  from transcode_create_error [where http = http and s = s, OF this assms]
  show "map_option fst (transcode http api_key transcoded_media_url output_path body s)
          = Some (Inl (PyException (resp_text resp)))"
    by (simp add: transcode_def)
qed

text \<open>The answer 422 of the scenario, given to the status query and to the creation request.\<close>

theorem http_error_payload_witness:
  "(400::nat) \<le> status_code (unprocessable transcode_url)
   \<and> status_code (unprocessable transcode_url) < 600
   \<and> scripted (world (init [Inr (unprocessable transcode_url)]))
         (status_request ''key'' (JStr ''J1'') transcode_url)
       = (Inr (unprocessable transcode_url), [])
   \<and> scripted (world (init [Inr (unprocessable transcode_url)]))
         (post_request ''key'' transcode_url (JObj []))
       = (Inr (unprocessable transcode_url), [])
   \<and> fst (check_job_status scripted ''key'' (JStr ''J1'') transcode_url
             (init [Inr (unprocessable transcode_url)]))
       = Inl (PyException (resp_text (unprocessable transcode_url)))
   \<and> map_option fst (transcode scripted ''key'' ''dlb://out/v.mp4'' ''out.mp4'' (JObj [])
                        (init [Inr (unprocessable transcode_url)]))
       = Some (Inl (PyException (resp_text (unprocessable transcode_url))))"
proof -
  let ?resp = "unprocessable transcode_url"
  let ?ini = "init [Inr ?resp] :: (string + response) list state"
  have a: "400 \<le> status_code ?resp" and b: "status_code ?resp < 600"
    by (simp_all add: unprocessable_def)
  have w: "scripted (world ?ini) rq = (Inr ?resp, [])" for rq
    by (simp add: init_def)
  note T = http_error_payload [where http = scripted and s = ?ini and api_key = "''key''"
      and job_id = "JStr ''J1''" and url = transcode_url and body = "JObj []"
      and transcoded_media_url = "''dlb://out/v.mp4''" and output_path = "''out.mp4''"
      and w' = "[]", OF a b]
  from T w have c: "fst (check_job_status scripted ''key'' (JStr ''J1'') transcode_url ?ini)
       = Inl (PyException (resp_text ?resp))"
    by blast
  from T w have d: "map_option fst (transcode scripted ''key'' ''dlb://out/v.mp4'' ''out.mp4''
                        (JObj []) ?ini)
       = Some (Inl (PyException (resp_text ?resp)))"
    by blast
  show ?thesis
    apply (intro conjI)
         apply (rule a)
        apply (rule b)
       apply (rule w)
      apply (rule w)
     apply (rule c)
    apply (rule d)
    done
qed

text \<open>
  C2, as stated, fails in two ways. A status query answered with 300 does not fail at all:
  \<^verbatim>\<open>raise_for_status\<close> raises nothing and the parsed body is returned. And the creation
  request of \<^verbatim>\<open>diagnose\<close> answered with 422 ends with the \<^verbatim>\<open>HTTPError\<close> of
  \<^verbatim>\<open>raise_for_status\<close>, whose message is the status line, not the body.
\<close>

theorem http_error_payload_counterexample:
  "fst (check_job_status scripted ''key'' (JStr ''J1'') transcode_url
          (init [Inr (multiple_choices running)])) = Inr running
   \<and> map_option fst (diagnose scripted ''key'' ''dlb://in/v.mp4''
                        (init [Inr (unprocessable diagnose_url)]))
       = Some (Inl (HTTPError
            ''422 Client Error: Unprocessable Entity for url: https://api.dolby.com/media/diagnose''
            (unprocessable diagnose_url)))
   \<and> ''422 Client Error: Unprocessable Entity for url: https://api.dolby.com/media/diagnose''
       \<noteq> resp_text (unprocessable diagnose_url)"
proof (intro conjI)
  show "fst (check_job_status scripted ''key'' (JStr ''J1'') transcode_url
          (init [Inr (multiple_choices running)])) = Inr running"
    by (simp add: client_defs multiple_choices_def)
  show "map_option fst (diagnose scripted ''key'' ''dlb://in/v.mp4''
                        (init [Inr (unprocessable diagnose_url)]))
       = Some (Inl (HTTPError
            ''422 Client Error: Unprocessable Entity for url: https://api.dolby.com/media/diagnose''
            (unprocessable diagnose_url)))"
    by (simp add: diagnose_def diagnose_create_def requests_call_def init_def
        raise_for_status_unprocessable diagnose_url_def)
  show "''422 Client Error: Unprocessable Entity for url: https://api.dolby.com/media/diagnose''
       \<noteq> resp_text (unprocessable diagnose_url)"
    by (simp add: unprocessable_def)
qed

section \<open>A failed submission\<close>

text \<open>
  C6. The submission-failure scenario, run on both creation calls: the creation request is
  answered with HTTP 422 and the body \<^verbatim>\<open>{"error":"invalid url"}\<close>. Neither call produces a
  job identifier, queries the status or sleeps: the trace holds the one request.
  \<^verbatim>\<open>transcode\<close> raises an exception that carries the body text; \<^verbatim>\<open>diagnose\<close> raises
  the \<^verbatim>\<open>HTTPError\<close> of \<^verbatim>\<open>raise_for_status\<close>, whose message does not contain it.
\<close>

theorem submission_failure_scenario:
  "transcode scripted ''key'' ''dlb://out/v.mp4'' ''out.mp4'' (JObj [])
       (init [Inr (unprocessable transcode_url)])
     = Some (Inl (PyException (resp_text (unprocessable transcode_url))),
             \<lparr>world = [], files = Map.empty, unwritable = {},
              trace = [Request (post_request ''key'' transcode_url (JObj []))]\<rparr>)
   \<and> diagnose scripted ''key'' ''dlb://in/v.mp4'' (init [Inr (unprocessable diagnose_url)])
     = Some (Inl (HTTPError
                   (''422 Client Error: Unprocessable Entity for url: '' @ diagnose_url)
                   (unprocessable diagnose_url)),
             \<lparr>world = [], files = Map.empty, unwritable = {},
              trace = [Request (post_request ''key'' diagnose_url
                                  (JObj [(''input'', JStr ''dlb://in/v.mp4'')]))]\<rparr>)
   \<and> \<not> (\<exists>pre post. ''422 Client Error: Unprocessable Entity for url: '' @ diagnose_url
                      = pre @ resp_text (unprocessable diagnose_url) @ post)"
proof (intro conjI)
  show "transcode scripted ''key'' ''dlb://out/v.mp4'' ''out.mp4'' (JObj [])
       (init [Inr (unprocessable transcode_url)])
     = Some (Inl (PyException (resp_text (unprocessable transcode_url))),
             \<lparr>world = [], files = Map.empty, unwritable = {},
              trace = [Request (post_request ''key'' transcode_url (JObj []))]\<rparr>)"
    by (simp add: transcode_def transcode_create_def requests_call_def init_def
        raise_for_status_unprocessable)
  show "diagnose scripted ''key'' ''dlb://in/v.mp4'' (init [Inr (unprocessable diagnose_url)])
     = Some (Inl (HTTPError
                   (''422 Client Error: Unprocessable Entity for url: '' @ diagnose_url)
                   (unprocessable diagnose_url)),
             \<lparr>world = [], files = Map.empty, unwritable = {},
              trace = [Request (post_request ''key'' diagnose_url
                                  (JObj [(''input'', JStr ''dlb://in/v.mp4'')]))]\<rparr>)"
    by (simp add: diagnose_def diagnose_create_def requests_call_def init_def
        raise_for_status_unprocessable)
  show "\<not> (\<exists>pre post. ''422 Client Error: Unprocessable Entity for url: '' @ diagnose_url
                      = pre @ resp_text (unprocessable diagnose_url) @ post)"
  proof
    assume "\<exists>pre post. ''422 Client Error: Unprocessable Entity for url: '' @ diagnose_url
                      = pre @ resp_text (unprocessable diagnose_url) @ post"
    then obtain pre post
      where "''422 Client Error: Unprocessable Entity for url: '' @ diagnose_url
               = pre @ resp_text (unprocessable diagnose_url) @ post" by blast
    then have "set (resp_text (unprocessable diagnose_url))
                 \<subseteq> set (''422 Client Error: Unprocessable Entity for url: '' @ diagnose_url)"
      by (metis set_append Un_upper1 Un_upper2 subset_trans)
    then show False
      by (simp add: unprocessable_def diagnose_url_def)
  qed
qed

section \<open>The job identifier\<close>

lemma requests_of_append: "requests_of (xs @ ys) = requests_of xs @ requests_of ys"
  by (induction xs rule: requests_of.induct) simp_all

lemma transcode_create_ok:
  assumes "http (world s) (post_request api_key transcode_url body) = (Inr resp, w')"
    and "200 \<le> status_code resp" and "status_code resp < 300"
    and "resp_json resp = Some (JObj kvs)" and "map_of kvs ''job_id'' = Some job_id"
  shows "transcode_create http api_key body s =
           (Inr job_id,
            s\<lparr>world := w', trace := trace s @ [Request (post_request api_key transcode_url body)]\<rparr>)"
  using assms raise_for_status_2xx [of resp]
  by (simp add: transcode_create_def requests_call_def response_json_def)

lemma diagnose_create_ok:
  assumes "http (world s) (post_request api_key diagnose_url (JObj [(''input'', JStr inp)]))
             = (Inr resp, w')"
    and "200 \<le> status_code resp" and "status_code resp < 300"
    and "resp_json resp = Some (JObj kvs)" and "map_of kvs ''job_id'' = Some job_id"
  shows "diagnose_create http api_key inp s =
           (Inr job_id,
            s\<lparr>world := w',
              trace := trace s @ [Request (post_request api_key diagnose_url
                                             (JObj [(''input'', JStr inp)]))]\<rparr>)"
  using assms raise_for_status_2xx [of resp]
  by (simp add: diagnose_create_def requests_call_def response_json_def)

lemma check_job_status_requests:
  "requests_of (trace (snd (check_job_status http api_key job_id url s)))
     = requests_of (trace s) @ [status_request api_key job_id url]"
  by (auto simp: check_job_status_def requests_call_def requests_of_append
      split: prod.splits sum.splits error.splits)

lemma poll_once_requests:
  "requests_of (trace (pass_state (poll_once http api_key job_id url s)))
     = requests_of (trace s) @ [status_request api_key job_id url]"
proof -
  obtain r s1 where c: "check_job_status http api_key job_id url s = (r, s1)"
    by (cases "check_job_status http api_key job_id url s")
  with check_job_status_requests [of http api_key job_id url s]
  have "requests_of (trace s1) = requests_of (trace s) @ [status_request api_key job_id url]"
    by simp
  with c show ?thesis
    by (auto simp: poll_once_def py_print_def time_sleep_def requests_of_append
        split: sum.splits)
qed

lemma retries_requests:
  "retries n http api_key job_id url s = Some sn \<Longrightarrow>
     requests_of (trace sn)
       = requests_of (trace s) @ replicate n (status_request api_key job_id url)"
proof (induction n arbitrary: s)
  case 0
  then show ?case by simp
next
  case (Suc n)
  then obtain s1 where step: "poll_once http api_key job_id url s = Retry s1"
    and rest: "retries n http api_key job_id url s1 = Some sn"
    by (auto split: pass.splits)
  from poll_once_requests [of http api_key job_id url s] step
  have "requests_of (trace s1) = requests_of (trace s) @ [status_request api_key job_id url]"
    by simp
  with Suc.IH [OF rest] show ?case
    by (simp add: replicate_append_same)
qed

section \<open>After success\<close>

lemma poll_once_success:
  assumes "check_job_status http api_key job_id url s = (Inr jr, s1)"
    and "subscript jr ''status'' = Inr (JStr ''Success'')"
  shows "poll_once http api_key job_id url s = Succeeded jr s1"
  using assms by (simp add: poll_once_def)

lemma poll_loop_success:
  assumes "retries n http api_key job_id url s0 = Some sn"
    and "check_job_status http api_key job_id url sn = (Inr jr, s1)"
    and "subscript jr ''status'' = Inr (JStr ''Success'')"
  shows "poll_loop http api_key f job_id url s0 = Some (f jr s1)"
proof -
  have "poll_loop http api_key f job_id url s0 = poll_loop http api_key f job_id url sn"
    using assms(1) by (rule poll_loop_retries)
  also have "\<dots> = Some (f jr s1)"
    using poll_once_success [OF assms(2,3)] by (rule poll_loop_Succeeded)
  finally show ?thesis .
qed

text \<open>
  C7. Once \<^verbatim>\<open>diagnose\<close> has its job identifier and, after any number of passes that were
  retried, a status query returns a snapshot with status \<^verbatim>\<open>"Success"\<close>, the call prints
  and returns \<^verbatim>\<open>job_response["result"]["media_info"]\<close> of that snapshot as it is.
\<close>

theorem diagnose_returns_media_info:
  assumes "diagnose_create http api_key inp s = (Inr job_id, s1)"
    and "retries n http api_key job_id diagnose_url
           (py_print [PStr ''Job ID: '', PVal job_id]
             (py_print [PStr (CHR 0x0A # ''Diagnosing your media file...'')] s1)) = Some sn"
    and "check_job_status http api_key job_id diagnose_url sn = (Inr jr, s2)"
    and "subscript jr ''status'' = Inr (JStr ''Success'')"
    and "subscript jr ''result'' = Inr res"
    and "subscript res ''media_info'' = Inr media_info"
  shows "diagnose http api_key inp s =
           Some (Inr media_info,
                 py_print [PStr (CHR 0x0A # ''Media Info: ''), PVal media_info] s2)"
proof -
  have "diagnose http api_key inp s = Some (diagnose_result jr s2)"
    using assms(1) poll_loop_success [OF assms(2-4), of diagnose_result]
    by (simp add: diagnose_def Let_def)
  with assms(5,6) show ?thesis
    by (simp add: diagnose_result_def)
qed

text \<open>The polling scenario: \<^verbatim>\<open>Running\<close> twice, then \<^verbatim>\<open>Success\<close> with a result.\<close>

theorem diagnose_returns_media_info_witness:
  "diagnose_create scripted ''key'' ''dlb://in/v.mp4''
       (init [Inr (ok_json created), Inr (ok_json running), Inr (ok_json running),
              Inr (ok_json succeeded)])
     = (Inr (JStr ''J1''),
        \<lparr>world = [Inr (ok_json running), Inr (ok_json running), Inr (ok_json succeeded)],
         files = Map.empty, unwritable = {},
         trace = [Request (post_request ''key'' diagnose_url
                             (JObj [(''input'', JStr ''dlb://in/v.mp4'')]))]\<rparr>)
   \<and> subscript succeeded ''status'' = Inr (JStr ''Success'')
   \<and> subscript succeeded ''result'' = Inr (JObj [(''media_info'', JObj [(''codec'', JStr ''h264'')])])
   \<and> subscript (JObj [(''media_info'', JObj [(''codec'', JStr ''h264'')])]) ''media_info''
       = Inr (JObj [(''codec'', JStr ''h264'')])
   \<and> diagnose scripted ''key'' ''dlb://in/v.mp4''
       (init [Inr (ok_json created), Inr (ok_json running), Inr (ok_json running),
              Inr (ok_json succeeded)])
     = Some (Inr (JObj [(''codec'', JStr ''h264'')]),
        \<lparr>world = [], files = Map.empty, unwritable = {},
         trace = [Request (post_request ''key'' diagnose_url
                             (JObj [(''input'', JStr ''dlb://in/v.mp4'')])),
                  Print [PStr (CHR 0x0A # ''Diagnosing your media file...'')],
                  Print [PStr ''Job ID: '', PVal (JStr ''J1'')],
                  Request (status_request ''key'' (JStr ''J1'') diagnose_url),
                  Print [PVal running], Sleep 10,
                  Request (status_request ''key'' (JStr ''J1'') diagnose_url),
                  Print [PVal running], Sleep 10,
                  Request (status_request ''key'' (JStr ''J1'') diagnose_url),
                  Print [PStr (CHR 0x0A # ''Media Info: ''),
                         PVal (JObj [(''codec'', JStr ''h264'')])]]\<rparr>)"
proof -
  let ?ini = "init [Inr (ok_json created), Inr (ok_json running), Inr (ok_json running),
                    Inr (ok_json succeeded)] :: (string + response) list state"
  let ?post = "post_request ''key'' diagnose_url (JObj [(''input'', JStr ''dlb://in/v.mp4'')])"
  let ?req = "status_request ''key'' (JStr ''J1'') diagnose_url"
  let ?made = "\<lparr>world = [Inr (ok_json running), Inr (ok_json running), Inr (ok_json succeeded)],
                files = Map.empty, unwritable = {}, trace = [Request ?post]\<rparr>
                 :: (string + response) list state"
  let ?mid = "\<lparr>world = [Inr (ok_json succeeded)], files = Map.empty, unwritable = {},
               trace = [Request ?post,
                        Print [PStr (CHR 0x0A # ''Diagnosing your media file...'')],
                        Print [PStr ''Job ID: '', PVal (JStr ''J1'')],
                        Request ?req, Print [PVal running], Sleep 10,
                        Request ?req, Print [PVal running], Sleep 10]\<rparr>
                 :: (string + response) list state"
  let ?last = "\<lparr>world = [], files = Map.empty, unwritable = {},
               trace = [Request ?post,
                        Print [PStr (CHR 0x0A # ''Diagnosing your media file...'')],
                        Print [PStr ''Job ID: '', PVal (JStr ''J1'')],
                        Request ?req, Print [PVal running], Sleep 10,
                        Request ?req, Print [PVal running], Sleep 10, Request ?req]\<rparr>
                 :: (string + response) list state"
  let ?res = "JObj [(''media_info'', JObj [(''codec'', JStr ''h264'')])]"
  let ?info = "JObj [(''codec'', JStr ''h264'')]"
  have a: "diagnose_create scripted ''key'' ''dlb://in/v.mp4'' ?ini = (Inr (JStr ''J1''), ?made)"
    by (simp add: diagnose_create_def client_defs)
  have b: "retries 2 scripted ''key'' (JStr ''J1'') diagnose_url
             (py_print [PStr ''Job ID: '', PVal (JStr ''J1'')]
               (py_print [PStr (CHR 0x0A # ''Diagnosing your media file...'')] ?made)) = Some ?mid"
    by (simp add: numeral_2_eq_2 client_defs)
  have c: "check_job_status scripted ''key'' (JStr ''J1'') diagnose_url ?mid = (Inr succeeded, ?last)"
    by (simp add: client_defs)
  have d: "subscript succeeded ''status'' = Inr (JStr ''Success'')"
    and e: "subscript succeeded ''result'' = Inr ?res"
    and f: "subscript ?res ''media_info'' = Inr ?info"
    by (simp_all add: succeeded_def)
  from diagnose_returns_media_info [where http = scripted, OF a b c d e f]
  have g: "diagnose scripted ''key'' ''dlb://in/v.mp4'' ?ini
             = Some (Inr ?info, py_print [PStr (CHR 0x0A # ''Media Info: ''), PVal ?info] ?last)" .
  show ?thesis
    apply (intro conjI)
        apply (rule a)
       apply (rule d)
      apply (rule e)
     apply (rule f)
    apply (simp add: g py_print_def)
    done
qed

lemma download_media_trace:
  "\<exists>evs. trace (snd (download_media http api_key output_path transcoded_media_url s))
           = trace s @ Request (download_request api_key transcoded_media_url) # evs"
  by (auto simp: download_media_def download_media_with_def requests_call_def py_print_def
      Let_def split: prod.splits sum.splits)

lemma download_media_done:
  assumes "download_media http api_key output_path transcoded_media_url s = (Inr (), s')"
  shows "\<exists>resp w'. http (world s) (download_request api_key transcoded_media_url) = (Inr resp, w')
           \<and> files s' output_path = Some (resp_raw resp)"
  using assms
  by (auto simp: download_media_def download_media_with_def requests_call_def py_print_def
      Let_def copyfileobj_append split: prod.splits sum.splits if_splits)

text \<open>
  C3, as amended. Once \<^verbatim>\<open>transcode\<close> has its job identifier and, after any number of
  passes that were retried, a status query returns a snapshot with status \<^verbatim>\<open>"Success"\<close>,
  the call does what \<^verbatim>\<open>download_media\<close> does with the output path and the media URL that
  the caller gave: the next request is a streamed GET to the media output endpoint whose
  \<^verbatim>\<open>url\<close> parameter is that media URL, and when the download completes the file at the
  output path holds the response body. The snapshot itself is not used.
\<close>

theorem transcode_downloads:
  assumes "transcode_create http api_key body s = (Inr job_id, s1)"
    and "retries n http api_key job_id transcode_url
           (py_print [PStr ''Job ID: '', PVal job_id]
             (py_print [PStr (CHR 0x0A # ''Transcoding your media file...'')] s1)) = Some sn"
    and "check_job_status http api_key job_id transcode_url sn = (Inr jr, s2)"
    and "subscript jr ''status'' = Inr (JStr ''Success'')"
  shows "transcode http api_key transcoded_media_url output_path body s =
           Some (download_media http api_key output_path transcoded_media_url s2)
       \<and> (\<exists>evs. trace (snd (download_media http api_key output_path transcoded_media_url s2))
                  = trace s2 @ Request (download_request api_key transcoded_media_url) # evs)
       \<and> req_method (download_request api_key transcoded_media_url) = GET
       \<and> req_url (download_request api_key transcoded_media_url)
           = ''https://api.dolby.com/media/output''
       \<and> req_params (download_request api_key transcoded_media_url)
           = [(''url'', JStr transcoded_media_url)]
       \<and> req_stream (download_request api_key transcoded_media_url)
       \<and> (\<forall>s'. download_media http api_key output_path transcoded_media_url s2 = (Inr (), s')
            \<longrightarrow> (\<exists>resp w'. http (world s2) (download_request api_key transcoded_media_url)
                               = (Inr resp, w')
                           \<and> files s' output_path = Some (resp_raw resp)))"
proof -
  have "transcode http api_key transcoded_media_url output_path body s =
           Some (download_media http api_key output_path transcoded_media_url s2)"
    using assms(1)
      poll_loop_success [OF assms(2-4),
        of "\<lambda>job_response. download_media http api_key output_path transcoded_media_url"]
    by (simp add: transcode_def Let_def)
  moreover have "\<forall>s'. download_media http api_key output_path transcoded_media_url s2 = (Inr (), s')
            \<longrightarrow> (\<exists>resp w'. http (world s2) (download_request api_key transcoded_media_url)
                               = (Inr resp, w')
                           \<and> files s' output_path = Some (resp_raw resp))"
    using download_media_done [of http api_key output_path transcoded_media_url s2] by blast
  ultimately show ?thesis
    using download_media_trace [of http api_key output_path transcoded_media_url s2]
    by (simp add: download_request_def)
qed


text \<open>A whole run of \<^verbatim>\<open>transcode\<close>: creation, one retried pass, success and the download.\<close>

theorem transcode_downloads_witness:
  "transcode_create scripted ''key'' (JObj [])
       (init [Inr (ok_json created), Inr (ok_json running), Inr (ok_json succeeded),
              Inr (ok_bytes [0, 1, 255])])
     = (Inr (JStr ''J1''),
        \<lparr>world = [Inr (ok_json running), Inr (ok_json succeeded), Inr (ok_bytes [0, 1, 255])],
         files = Map.empty, unwritable = {},
         trace = [Request (post_request ''key'' transcode_url (JObj []))]\<rparr>)
   \<and> subscript succeeded ''status'' = Inr (JStr ''Success'')
   \<and> transcode scripted ''key'' ''dlb://out/v.mp4'' ''out.mp4'' (JObj [])
       (init [Inr (ok_json created), Inr (ok_json running), Inr (ok_json succeeded),
              Inr (ok_bytes [0, 1, 255])])
     = Some (Inr (),
        \<lparr>world = [], files = [''out.mp4'' \<mapsto> [0, 1, 255]], unwritable = {},
         trace = [Request (post_request ''key'' transcode_url (JObj [])),
                  Print [PStr (CHR 0x0A # ''Transcoding your media file...'')],
                  Print [PStr ''Job ID: '', PVal (JStr ''J1'')],
                  Request (status_request ''key'' (JStr ''J1'') transcode_url),
                  Print [PVal running], Sleep 10,
                  Request (status_request ''key'' (JStr ''J1'') transcode_url),
                  Request (download_request ''key'' ''dlb://out/v.mp4''),
                  Print [PStr (CHR 0x0A #
                    ''Downloading from https://api.dolby.com/media/output into out.mp4'')]]\<rparr>)"
proof -
  let ?ini = "init [Inr (ok_json created), Inr (ok_json running), Inr (ok_json succeeded),
                    Inr (ok_bytes [0, 1, 255])] :: (string + response) list state"
  let ?post = "post_request ''key'' transcode_url (JObj [])"
  let ?req = "status_request ''key'' (JStr ''J1'') transcode_url"
  let ?made = "\<lparr>world = [Inr (ok_json running), Inr (ok_json succeeded),
                         Inr (ok_bytes [0, 1, 255])],
                files = Map.empty, unwritable = {}, trace = [Request ?post]\<rparr>
                 :: (string + response) list state"
  let ?mid = "\<lparr>world = [Inr (ok_json succeeded), Inr (ok_bytes [0, 1, 255])],
               files = Map.empty, unwritable = {},
               trace = [Request ?post,
                        Print [PStr (CHR 0x0A # ''Transcoding your media file...'')],
                        Print [PStr ''Job ID: '', PVal (JStr ''J1'')],
                        Request ?req, Print [PVal running], Sleep 10]\<rparr>
                 :: (string + response) list state"
  let ?last = "\<lparr>world = [Inr (ok_bytes [0, 1, 255])], files = Map.empty, unwritable = {},
               trace = [Request ?post,
                        Print [PStr (CHR 0x0A # ''Transcoding your media file...'')],
                        Print [PStr ''Job ID: '', PVal (JStr ''J1'')],
                        Request ?req, Print [PVal running], Sleep 10, Request ?req]\<rparr>
                 :: (string + response) list state"
  have a: "transcode_create scripted ''key'' (JObj []) ?ini = (Inr (JStr ''J1''), ?made)"
    by (simp add: transcode_create_def client_defs)
  have b: "retries 1 scripted ''key'' (JStr ''J1'') transcode_url
             (py_print [PStr ''Job ID: '', PVal (JStr ''J1'')]
               (py_print [PStr (CHR 0x0A # ''Transcoding your media file...'')] ?made)) = Some ?mid"
    by (simp add: client_defs)
  have c: "check_job_status scripted ''key'' (JStr ''J1'') transcode_url ?mid = (Inr succeeded, ?last)"
    by (simp add: client_defs)
  have d: "subscript succeeded ''status'' = Inr (JStr ''Success'')"
    by (simp add: succeeded_def)
  from transcode_downloads [where http = scripted and output_path = "''out.mp4''"
      and transcoded_media_url = "''dlb://out/v.mp4''", OF a b c d]
  have g: "transcode scripted ''key'' ''dlb://out/v.mp4'' ''out.mp4'' (JObj []) ?ini
             = Some (download_media scripted ''key'' ''out.mp4'' ''dlb://out/v.mp4'' ?last)"
    by (rule conjunct1)
  show ?thesis
    apply (intro conjI)
      apply (rule a)
     apply (rule d)
    apply (simp only: g)
    apply (simp add: download_defs client_defs copyfileobj_append)
    done
qed

text \<open>
  C3, as stated, fails: the URL of the download is not taken from the status query. Here
  the snapshot names one URL and the caller another; the request made is for the caller's.
\<close>

theorem transcode_downloads_counterexample:
  "map_option fst
     (transcode scripted ''key'' ''dlb://out/v.mp4'' ''out.mp4'' (JObj [])
       (init [Inr (ok_json created),
              Inr (ok_json (JObj [(''status'', JStr ''Success''),
                                  (''result'', JObj [(''url'', JStr ''https://cdn.example/result.mp4'')])])),
              Inr (ok_bytes [0, 1, 255])]))
     = Some (Inr ())
   \<and> map_option (requests_of \<circ> trace \<circ> snd)
     (transcode scripted ''key'' ''dlb://out/v.mp4'' ''out.mp4'' (JObj [])
       (init [Inr (ok_json created),
              Inr (ok_json (JObj [(''status'', JStr ''Success''),
                                  (''result'', JObj [(''url'', JStr ''https://cdn.example/result.mp4'')])])),
              Inr (ok_bytes [0, 1, 255])]))
     = Some [post_request ''key'' transcode_url (JObj []),
             status_request ''key'' (JStr ''J1'') transcode_url,
             download_request ''key'' ''dlb://out/v.mp4'']
   \<and> req_params (download_request ''key'' ''dlb://out/v.mp4'') = [(''url'', JStr ''dlb://out/v.mp4'')]
   \<and> JStr ''dlb://out/v.mp4'' \<noteq> JStr ''https://cdn.example/result.mp4''"
proof -
  let ?snap = "JObj [(''status'', JStr ''Success''),
                     (''result'', JObj [(''url'', JStr ''https://cdn.example/result.mp4'')])]"
  let ?ini = "init [Inr (ok_json created), Inr (ok_json ?snap), Inr (ok_bytes [0, 1, 255])]
                :: (string + response) list state"
  let ?post = "post_request ''key'' transcode_url (JObj [])"
  let ?req = "status_request ''key'' (JStr ''J1'') transcode_url"
  let ?made = "\<lparr>world = [Inr (ok_json ?snap), Inr (ok_bytes [0, 1, 255])],
                files = Map.empty, unwritable = {}, trace = [Request ?post]\<rparr>
                 :: (string + response) list state"
  let ?told = "\<lparr>world = [Inr (ok_json ?snap), Inr (ok_bytes [0, 1, 255])],
               files = Map.empty, unwritable = {},
               trace = [Request ?post,
                        Print [PStr (CHR 0x0A # ''Transcoding your media file...'')],
                        Print [PStr ''Job ID: '', PVal (JStr ''J1'')]]\<rparr>
                 :: (string + response) list state"
  let ?last = "\<lparr>world = [Inr (ok_bytes [0, 1, 255])], files = Map.empty, unwritable = {},
               trace = [Request ?post,
                        Print [PStr (CHR 0x0A # ''Transcoding your media file...'')],
                        Print [PStr ''Job ID: '', PVal (JStr ''J1'')], Request ?req]\<rparr>
                 :: (string + response) list state"
  have a: "transcode_create scripted ''key'' (JObj []) ?ini = (Inr (JStr ''J1''), ?made)"
    by (simp add: transcode_create_def client_defs)
  have "poll_once scripted ''key'' (JStr ''J1'') transcode_url ?told = Succeeded ?snap ?last"
    by (simp add: client_defs)
  then have "poll_loop scripted ''key''
               (\<lambda>job_response. download_media scripted ''key'' ''out.mp4'' ''dlb://out/v.mp4'')
               (JStr ''J1'') transcode_url ?told
             = Some (download_media scripted ''key'' ''out.mp4'' ''dlb://out/v.mp4'' ?last)"
    by (rule poll_loop_Succeeded)
  with a have "transcode scripted ''key'' ''dlb://out/v.mp4'' ''out.mp4'' (JObj []) ?ini
             = Some (download_media scripted ''key'' ''out.mp4'' ''dlb://out/v.mp4'' ?last)"
    by (simp add: transcode_def py_print_def)
  then have full: "transcode scripted ''key'' ''dlb://out/v.mp4'' ''out.mp4'' (JObj []) ?ini
     = Some (Inr (),
        \<lparr>world = [], files = [''out.mp4'' \<mapsto> [0, 1, 255]], unwritable = {},
         trace = [Request ?post,
                  Print [PStr (CHR 0x0A # ''Transcoding your media file...'')],
                  Print [PStr ''Job ID: '', PVal (JStr ''J1'')],
                  Request ?req,
                  Request (download_request ''key'' ''dlb://out/v.mp4''),
                  Print [PStr (CHR 0x0A #
                    ''Downloading from https://api.dolby.com/media/output into out.mp4'')]]\<rparr>)"
    by (simp add: download_defs client_defs copyfileobj_append)
  show ?thesis
    apply (simp only: full)
    apply (simp add: download_request_def)
    done
qed

section \<open>Request headers\<close>









lemma requests_call_trace:
  "trace (snd (requests_call http rq s)) = trace s @ [Request rq]"
  by (simp add: requests_call_def split: prod.splits sum.splits)

lemma download_media_requests:
  "requests_of (trace (snd (download_media http api_key output_path transcoded_media_url s)))
     = requests_of (trace s) @ [download_request api_key transcoded_media_url]"
proof -
  let ?rq = "download_request api_key transcoded_media_url"
  obtain r s1 where c: "requests_call http ?rq s = (r, s1)"
    by (cases "requests_call http ?rq s")
  with requests_call_trace [of http ?rq s] have "trace s1 = trace s @ [Request ?rq]"
    by simp
  with c show ?thesis
    by (simp add: download_media_def download_media_with_def py_print_def Let_def
        requests_of_append split: sum.splits)
qed


















section \<open>The job identifier in the requests of a run\<close>

lemma diagnose_result_requests:
  "requests_of (trace (snd (diagnose_result jr s))) = requests_of (trace s)"
  by (simp add: diagnose_result_def py_print_def requests_of_append split: sum.splits)

text \<open>The requests of a run of the loop that ends: one status query for each retried pass
  and one for the pass that ended it, all for the job the loop was started with, and after
  them whatever the success branch did.\<close>

lemma poll_loop_requests:
  assumes "poll_loop http api_key f job_id url s = Some (r, s')"
  shows "\<exists>n s2. requests_of (trace s2)
                   = requests_of (trace s) @ replicate (Suc n) (status_request api_key job_id url)
                 \<and> (s' = s2 \<or> (\<exists>jr. s' = snd (f jr s2)))"
proof -
  let ?rq = "status_request api_key job_id url"
  from poll_loop_ends [OF assms] obtain n sn
    where n: "retries n http api_key job_id url s = Some sn"
      and e: "ended_by http api_key f job_id url sn (r, s')" by blast
  let ?s2 = "pass_state (poll_once http api_key job_id url sn)"
  have "requests_of (trace ?s2) = requests_of (trace sn) @ [?rq]"
    by (rule poll_once_requests)
  with retries_requests [OF n]
  have reqs: "requests_of (trace ?s2) = requests_of (trace s) @ replicate (Suc n) ?rq"
    by (simp add: replicate_append_same)
  have "s' = ?s2 \<or> (\<exists>jr. s' = snd (f jr ?s2))"
  proof (cases "poll_once http api_key job_id url sn")
    case (Aborted err s1)
    with e show ?thesis by (simp add: ended_by_def)
  next
    case (Succeeded jr s1)
    with e have "(r, s') = f jr s1" by (simp add: ended_by_def)
    then have "s' = snd (f jr s1)" by (metis snd_conv)
    with Succeeded show ?thesis by auto
  next
    case (Retry s1)
    with e show ?thesis by (simp add: ended_by_def)
  qed
  with reqs show ?thesis by blast
qed

lemma transcode_requests:
  assumes c: "transcode_create http api_key body s = (Inr job_id, s1)"
    and run: "transcode http api_key transcoded_media_url output_path body s = Some (r, s')"
  shows "\<exists>n. requests_of (trace s')
               = requests_of (trace s1) @ replicate (Suc n) (status_request api_key job_id transcode_url)
           \<or> requests_of (trace s')
               = requests_of (trace s1) @ replicate (Suc n) (status_request api_key job_id transcode_url)
                   @ [download_request api_key transcoded_media_url]"
proof -
  let ?s3 = "py_print [PStr ''Job ID: '', PVal job_id]
               (py_print [PStr (CHR 0x0A # ''Transcoding your media file...'')] s1)"
  let ?rq = "status_request api_key job_id transcode_url"
  from c run
  have "poll_loop http api_key
          (\<lambda>job_response. download_media http api_key output_path transcoded_media_url)
          job_id transcode_url ?s3 = Some (r, s')"
    by (simp add: transcode_def Let_def)
  from poll_loop_requests [OF this] obtain n s2
    where reqs: "requests_of (trace s2) = requests_of (trace ?s3) @ replicate (Suc n) ?rq"
      and s': "s' = s2
               \<or> s' = snd (download_media http api_key output_path transcoded_media_url s2)"
    by blast
  have "requests_of (trace ?s3) = requests_of (trace s1)"
    by (simp add: py_print_def requests_of_append)
  with reqs have reqs1: "requests_of (trace s2) = requests_of (trace s1) @ replicate (Suc n) ?rq"
    by simp
  from s' show ?thesis
  proof
    assume "s' = s2"
    with reqs1 show ?thesis by blast
  next
    assume "s' = snd (download_media http api_key output_path transcoded_media_url s2)"
    with download_media_requests [of http api_key output_path transcoded_media_url s2] reqs1
    have "requests_of (trace s')
            = requests_of (trace s1) @ replicate (Suc n) ?rq
                @ [download_request api_key transcoded_media_url]"
      by simp
    then show ?thesis by blast
  qed
qed

lemma diagnose_requests:
  assumes c: "diagnose_create http api_key inp s = (Inr job_id, s1)"
    and run: "diagnose http api_key inp s = Some (r, s')"
  shows "\<exists>n. requests_of (trace s')
               = requests_of (trace s1) @ replicate (Suc n) (status_request api_key job_id diagnose_url)"
proof -
  let ?s3 = "py_print [PStr ''Job ID: '', PVal job_id]
               (py_print [PStr (CHR 0x0A # ''Diagnosing your media file...'')] s1)"
  let ?rq = "status_request api_key job_id diagnose_url"
  from c run
  have "poll_loop http api_key diagnose_result job_id diagnose_url ?s3 = Some (r, s')"
    by (simp add: diagnose_def Let_def)
  from poll_loop_requests [OF this] obtain n s2
    where reqs: "requests_of (trace s2) = requests_of (trace ?s3) @ replicate (Suc n) ?rq"
      and s': "s' = s2 \<or> (\<exists>jr. s' = snd (diagnose_result jr s2))"
    by blast
  have "requests_of (trace ?s3) = requests_of (trace s1)"
    by (simp add: py_print_def requests_of_append)
  with reqs have reqs1: "requests_of (trace s2) = requests_of (trace s1) @ replicate (Suc n) ?rq"
    by simp
  from s' have "requests_of (trace s') = requests_of (trace s2)"
    by (auto simp: diagnose_result_requests)
  with reqs1 show ?thesis by auto
qed


text \<open>
  C4. When the creation request is answered with a 2xx status and a JSON object, the value
  of its \<^verbatim>\<open>job_id\<close> entry is what the submission step hands on, and it is the job
  identifier of all polling that follows. A run of \<^verbatim>\<open>transcode\<close> or \<^verbatim>\<open>diagnose\<close> that
  returns has made, after the creation request, only status queries whose \<^verbatim>\<open>job_id\<close>
  parameter is that value (and, for \<^verbatim>\<open>transcode\<close>, possibly the download at the end). A
  run that is still polling after \<open>n\<close> retried passes has made \<open>n\<close> such queries, and
  the pass that follows makes one more.
\<close>

theorem job_id_extracted:
  assumes "200 \<le> status_code resp" and "status_code resp < 300"
    and "resp_json resp = Some (JObj kvs)" and "map_of kvs ''job_id'' = Some job_id"
  shows "(http (world s) (post_request api_key transcode_url body) = (Inr resp, w')
          \<longrightarrow> (\<exists>s1. transcode_create http api_key body s = (Inr job_id, s1)
                \<and> requests_of (trace s1)
                    = requests_of (trace s) @ [post_request api_key transcode_url body]
                \<and> transcode http api_key transcoded_media_url output_path body s =
                    poll_loop http api_key
                      (\<lambda>job_response. download_media http api_key output_path transcoded_media_url)
                      job_id transcode_url
                      (py_print [PStr ''Job ID: '', PVal job_id]
                        (py_print [PStr (CHR 0x0A # ''Transcoding your media file...'')] s1))
                \<and> (\<forall>r s'. transcode http api_key transcoded_media_url output_path body s
                             = Some (r, s')
                     \<longrightarrow> (\<exists>n. requests_of (trace s')
                               = requests_of (trace s1)
                                   @ replicate (Suc n) (status_request api_key job_id transcode_url)
                            \<or> requests_of (trace s')
                               = requests_of (trace s1)
                                   @ replicate (Suc n) (status_request api_key job_id transcode_url)
                                   @ [download_request api_key transcoded_media_url]))
                \<and> (\<forall>n tn. retries n http api_key job_id transcode_url
                             (py_print [PStr ''Job ID: '', PVal job_id]
                               (py_print [PStr (CHR 0x0A # ''Transcoding your media file...'')] s1))
                             = Some tn
                     \<longrightarrow> transcode http api_key transcoded_media_url output_path body s =
                           poll_loop http api_key
                             (\<lambda>job_response. download_media http api_key output_path
                                                transcoded_media_url)
                             job_id transcode_url tn
                         \<and> requests_of (trace tn)
                             = requests_of (trace s1)
                                 @ replicate n (status_request api_key job_id transcode_url)
                         \<and> requests_of (trace (pass_state
                               (poll_once http api_key job_id transcode_url tn)))
                             = requests_of (trace s1)
                                 @ replicate (Suc n) (status_request api_key job_id transcode_url))))
       \<and> (http (world s) (post_request api_key diagnose_url (JObj [(''input'', JStr inp)]))
             = (Inr resp, w')
          \<longrightarrow> (\<exists>s1. diagnose_create http api_key inp s = (Inr job_id, s1)
                \<and> requests_of (trace s1)
                    = requests_of (trace s)
                        @ [post_request api_key diagnose_url (JObj [(''input'', JStr inp)])]
                \<and> diagnose http api_key inp s =
                    poll_loop http api_key diagnose_result job_id diagnose_url
                      (py_print [PStr ''Job ID: '', PVal job_id]
                        (py_print [PStr (CHR 0x0A # ''Diagnosing your media file...'')] s1))
                \<and> (\<forall>r s'. diagnose http api_key inp s = Some (r, s')
                     \<longrightarrow> (\<exists>n. requests_of (trace s')
                               = requests_of (trace s1)
                                   @ replicate (Suc n) (status_request api_key job_id diagnose_url)))
                \<and> (\<forall>n tn. retries n http api_key job_id diagnose_url
                             (py_print [PStr ''Job ID: '', PVal job_id]
                               (py_print [PStr (CHR 0x0A # ''Diagnosing your media file...'')] s1))
                             = Some tn
                     \<longrightarrow> diagnose http api_key inp s =
                           poll_loop http api_key diagnose_result job_id diagnose_url tn
                         \<and> requests_of (trace tn)
                             = requests_of (trace s1)
                                 @ replicate n (status_request api_key job_id diagnose_url)
                         \<and> requests_of (trace (pass_state
                               (poll_once http api_key job_id diagnose_url tn)))
                             = requests_of (trace s1)
                                 @ replicate (Suc n) (status_request api_key job_id diagnose_url))))
       \<and> req_params (status_request api_key job_id url) = [(''job_id'', job_id)]"
proof (intro conjI impI)
  assume "http (world s) (post_request api_key transcode_url body) = (Inr resp, w')"
  note c = transcode_create_ok [where http = http and s = s, OF this assms]
  let ?s1 = "s\<lparr>world := w',
               trace := trace s @ [Request (post_request api_key transcode_url body)]\<rparr>"
  let ?s3 = "py_print [PStr ''Job ID: '', PVal job_id]
               (py_print [PStr (CHR 0x0A # ''Transcoding your media file...'')] ?s1)"
  let ?f = "\<lambda>job_response. download_media http api_key output_path transcoded_media_url"
  let ?rq = "status_request api_key job_id transcode_url"
  have s3: "requests_of (trace ?s3) = requests_of (trace ?s1)"
    by (simp add: py_print_def requests_of_append)
  have a: "requests_of (trace ?s1)
             = requests_of (trace s) @ [post_request api_key transcode_url body]"
    by (simp add: requests_of_append)
  have b: "transcode http api_key transcoded_media_url output_path body s =
             poll_loop http api_key ?f job_id transcode_url ?s3"
    using c by (simp add: transcode_def Let_def)
  have d: "\<forall>r s'. transcode http api_key transcoded_media_url output_path body s = Some (r, s')
             \<longrightarrow> (\<exists>n. requests_of (trace s') = requests_of (trace ?s1) @ replicate (Suc n) ?rq
                    \<or> requests_of (trace s')
                       = requests_of (trace ?s1) @ replicate (Suc n) ?rq
                           @ [download_request api_key transcoded_media_url])"
    using transcode_requests [OF c] by blast
  have e: "\<forall>n tn. retries n http api_key job_id transcode_url ?s3 = Some tn
             \<longrightarrow> transcode http api_key transcoded_media_url output_path body s =
                   poll_loop http api_key ?f job_id transcode_url tn
                 \<and> requests_of (trace tn) = requests_of (trace ?s1) @ replicate n ?rq
                 \<and> requests_of (trace (pass_state (poll_once http api_key job_id transcode_url tn)))
                     = requests_of (trace ?s1) @ replicate (Suc n) ?rq"
  proof (intro allI impI)
    fix n tn
    assume r: "retries n http api_key job_id transcode_url ?s3 = Some tn"
    from retries_requests [OF r] s3
    have tn: "requests_of (trace tn) = requests_of (trace ?s1) @ replicate n ?rq"
      by simp
    moreover from b poll_loop_retries [OF r, where f = ?f]
    have "transcode http api_key transcoded_media_url output_path body s =
            poll_loop http api_key ?f job_id transcode_url tn"
      by simp
    moreover from tn poll_once_requests [of http api_key job_id transcode_url tn]
    have "requests_of (trace (pass_state (poll_once http api_key job_id transcode_url tn)))
            = requests_of (trace ?s1) @ replicate (Suc n) ?rq"
      by (simp add: replicate_append_same)
    ultimately show "transcode http api_key transcoded_media_url output_path body s =
                   poll_loop http api_key ?f job_id transcode_url tn
                 \<and> requests_of (trace tn) = requests_of (trace ?s1) @ replicate n ?rq
                 \<and> requests_of (trace (pass_state (poll_once http api_key job_id transcode_url tn)))
                     = requests_of (trace ?s1) @ replicate (Suc n) ?rq"
      by blast
  qed
  show "\<exists>s1. transcode_create http api_key body s = (Inr job_id, s1)
                \<and> requests_of (trace s1)
                    = requests_of (trace s) @ [post_request api_key transcode_url body]
                \<and> transcode http api_key transcoded_media_url output_path body s =
                    poll_loop http api_key ?f job_id transcode_url
                      (py_print [PStr ''Job ID: '', PVal job_id]
                        (py_print [PStr (CHR 0x0A # ''Transcoding your media file...'')] s1))
                \<and> (\<forall>r s'. transcode http api_key transcoded_media_url output_path body s
                             = Some (r, s')
                     \<longrightarrow> (\<exists>n. requests_of (trace s')
                               = requests_of (trace s1) @ replicate (Suc n) ?rq
                            \<or> requests_of (trace s')
                               = requests_of (trace s1) @ replicate (Suc n) ?rq
                                   @ [download_request api_key transcoded_media_url]))
                \<and> (\<forall>n tn. retries n http api_key job_id transcode_url
                             (py_print [PStr ''Job ID: '', PVal job_id]
                               (py_print [PStr (CHR 0x0A # ''Transcoding your media file...'')] s1))
                             = Some tn
                     \<longrightarrow> transcode http api_key transcoded_media_url output_path body s =
                           poll_loop http api_key ?f job_id transcode_url tn
                         \<and> requests_of (trace tn) = requests_of (trace s1) @ replicate n ?rq
                         \<and> requests_of (trace (pass_state
                               (poll_once http api_key job_id transcode_url tn)))
                             = requests_of (trace s1) @ replicate (Suc n) ?rq)"
    apply (rule exI [where x = ?s1])
    apply (intro conjI)
        apply (rule c)
       apply (rule a)
      apply (rule b)
     apply (rule d)
    apply (rule e)
    done
next
  assume "http (world s) (post_request api_key diagnose_url (JObj [(''input'', JStr inp)]))
             = (Inr resp, w')"
  note c = diagnose_create_ok [where http = http and s = s, OF this assms]
  let ?post = "post_request api_key diagnose_url (JObj [(''input'', JStr inp)])"
  let ?s1 = "s\<lparr>world := w', trace := trace s @ [Request ?post]\<rparr>"
  let ?s3 = "py_print [PStr ''Job ID: '', PVal job_id]
               (py_print [PStr (CHR 0x0A # ''Diagnosing your media file...'')] ?s1)"
  let ?rq = "status_request api_key job_id diagnose_url"
  have s3: "requests_of (trace ?s3) = requests_of (trace ?s1)"
    by (simp add: py_print_def requests_of_append)
  have a: "requests_of (trace ?s1) = requests_of (trace s) @ [?post]"
    by (simp add: requests_of_append)
  have b: "diagnose http api_key inp s =
             poll_loop http api_key diagnose_result job_id diagnose_url ?s3"
    using c by (simp add: diagnose_def Let_def)
  have d: "\<forall>r s'. diagnose http api_key inp s = Some (r, s')
             \<longrightarrow> (\<exists>n. requests_of (trace s') = requests_of (trace ?s1) @ replicate (Suc n) ?rq)"
    using diagnose_requests [OF c] by blast
  have e: "\<forall>n tn. retries n http api_key job_id diagnose_url ?s3 = Some tn
             \<longrightarrow> diagnose http api_key inp s =
                   poll_loop http api_key diagnose_result job_id diagnose_url tn
                 \<and> requests_of (trace tn) = requests_of (trace ?s1) @ replicate n ?rq
                 \<and> requests_of (trace (pass_state (poll_once http api_key job_id diagnose_url tn)))
                     = requests_of (trace ?s1) @ replicate (Suc n) ?rq"
  proof (intro allI impI)
    fix n tn
    assume r: "retries n http api_key job_id diagnose_url ?s3 = Some tn"
    from retries_requests [OF r] s3
    have tn: "requests_of (trace tn) = requests_of (trace ?s1) @ replicate n ?rq"
      by simp
    moreover from b poll_loop_retries [OF r, where f = diagnose_result]
    have "diagnose http api_key inp s =
            poll_loop http api_key diagnose_result job_id diagnose_url tn"
      by simp
    moreover from tn poll_once_requests [of http api_key job_id diagnose_url tn]
    have "requests_of (trace (pass_state (poll_once http api_key job_id diagnose_url tn)))
            = requests_of (trace ?s1) @ replicate (Suc n) ?rq"
      by (simp add: replicate_append_same)
    ultimately show "diagnose http api_key inp s =
                   poll_loop http api_key diagnose_result job_id diagnose_url tn
                 \<and> requests_of (trace tn) = requests_of (trace ?s1) @ replicate n ?rq
                 \<and> requests_of (trace (pass_state (poll_once http api_key job_id diagnose_url tn)))
                     = requests_of (trace ?s1) @ replicate (Suc n) ?rq"
      by blast
  qed
  show "\<exists>s1. diagnose_create http api_key inp s = (Inr job_id, s1)
                \<and> requests_of (trace s1) = requests_of (trace s) @ [?post]
                \<and> diagnose http api_key inp s =
                    poll_loop http api_key diagnose_result job_id diagnose_url
                      (py_print [PStr ''Job ID: '', PVal job_id]
                        (py_print [PStr (CHR 0x0A # ''Diagnosing your media file...'')] s1))
                \<and> (\<forall>r s'. diagnose http api_key inp s = Some (r, s')
                     \<longrightarrow> (\<exists>n. requests_of (trace s')
                               = requests_of (trace s1) @ replicate (Suc n) ?rq))
                \<and> (\<forall>n tn. retries n http api_key job_id diagnose_url
                             (py_print [PStr ''Job ID: '', PVal job_id]
                               (py_print [PStr (CHR 0x0A # ''Diagnosing your media file...'')] s1))
                             = Some tn
                     \<longrightarrow> diagnose http api_key inp s =
                           poll_loop http api_key diagnose_result job_id diagnose_url tn
                         \<and> requests_of (trace tn) = requests_of (trace s1) @ replicate n ?rq
                         \<and> requests_of (trace (pass_state
                               (poll_once http api_key job_id diagnose_url tn)))
                             = requests_of (trace s1) @ replicate (Suc n) ?rq)"
    apply (rule exI [where x = ?s1])
    apply (intro conjI)
        apply (rule c)
       apply (rule a)
      apply (rule b)
     apply (rule d)
    apply (rule e)
    done
next
  show "req_params (status_request api_key job_id url) = [(''job_id'', job_id)]"
    by (simp add: status_request_def)
qed


text \<open>The creation request is answered with job \<^verbatim>\<open>J1\<close>, the first status query with
  \<^verbatim>\<open>Running\<close>, the second with \<^verbatim>\<open>Success\<close>: whole runs of \<^verbatim>\<open>transcode\<close> and of
  \<^verbatim>\<open>diagnose\<close>.\<close>

theorem job_id_extracted_witness:
  "(200::nat) \<le> status_code (ok_json created) \<and> status_code (ok_json created) < 300
   \<and> resp_json (ok_json created) = Some (JObj [(''job_id'', JStr ''J1'')])
   \<and> map_of [(''job_id'', JStr ''J1'')] ''job_id'' = Some (JStr ''J1'')
   \<and> scripted (world (init [Inr (ok_json created), Inr (ok_json running),
                             Inr (ok_json succeeded), Inr (ok_bytes [0, 1, 255])]))
         (post_request ''key'' transcode_url (JObj []))
       = (Inr (ok_json created),
          [Inr (ok_json running), Inr (ok_json succeeded), Inr (ok_bytes [0, 1, 255])])
   \<and> transcode scripted ''key'' ''dlb://out/v.mp4'' ''out.mp4'' (JObj [])
         (init [Inr (ok_json created), Inr (ok_json running), Inr (ok_json succeeded),
                Inr (ok_bytes [0, 1, 255])])
       = Some (Inr (),
          \<lparr>world = [], files = [''out.mp4'' \<mapsto> [0, 1, 255]], unwritable = {},
           trace = [Request (post_request ''key'' transcode_url (JObj [])),
                    Print [PStr (CHR 0x0A # ''Transcoding your media file...'')],
                    Print [PStr ''Job ID: '', PVal (JStr ''J1'')],
                    Request (status_request ''key'' (JStr ''J1'') transcode_url),
                    Print [PVal running], Sleep 10,
                    Request (status_request ''key'' (JStr ''J1'') transcode_url),
                    Request (download_request ''key'' ''dlb://out/v.mp4''),
                    Print [PStr (CHR 0x0A #
                      ''Downloading from https://api.dolby.com/media/output into out.mp4'')]]\<rparr>)
   \<and> (\<exists>n. [post_request ''key'' transcode_url (JObj []),
             status_request ''key'' (JStr ''J1'') transcode_url,
             status_request ''key'' (JStr ''J1'') transcode_url,
             download_request ''key'' ''dlb://out/v.mp4'']
            = post_request ''key'' transcode_url (JObj [])
                # replicate (Suc n) (status_request ''key'' (JStr ''J1'') transcode_url)
          \<or> [post_request ''key'' transcode_url (JObj []),
             status_request ''key'' (JStr ''J1'') transcode_url,
             status_request ''key'' (JStr ''J1'') transcode_url,
             download_request ''key'' ''dlb://out/v.mp4'']
            = post_request ''key'' transcode_url (JObj [])
                # replicate (Suc n) (status_request ''key'' (JStr ''J1'') transcode_url)
                  @ [download_request ''key'' ''dlb://out/v.mp4''])
   \<and> diagnose scripted ''key'' ''dlb://in/v.mp4''
         (init [Inr (ok_json created), Inr (ok_json running), Inr (ok_json succeeded),
                Inr (ok_bytes [0, 1, 255])])
       = Some (Inr (JObj [(''codec'', JStr ''h264'')]),
          \<lparr>world = [Inr (ok_bytes [0, 1, 255])], files = Map.empty, unwritable = {},
           trace = [Request (post_request ''key'' diagnose_url
                               (JObj [(''input'', JStr ''dlb://in/v.mp4'')])),
                    Print [PStr (CHR 0x0A # ''Diagnosing your media file...'')],
                    Print [PStr ''Job ID: '', PVal (JStr ''J1'')],
                    Request (status_request ''key'' (JStr ''J1'') diagnose_url),
                    Print [PVal running], Sleep 10,
                    Request (status_request ''key'' (JStr ''J1'') diagnose_url),
                    Print [PStr (CHR 0x0A # ''Media Info: ''),
                           PVal (JObj [(''codec'', JStr ''h264'')])]]\<rparr>)
   \<and> (\<exists>n. [post_request ''key'' diagnose_url (JObj [(''input'', JStr ''dlb://in/v.mp4'')]),
             status_request ''key'' (JStr ''J1'') diagnose_url,
             status_request ''key'' (JStr ''J1'') diagnose_url]
            = post_request ''key'' diagnose_url (JObj [(''input'', JStr ''dlb://in/v.mp4'')])
                # replicate (Suc n) (status_request ''key'' (JStr ''J1'') diagnose_url))
   \<and> retries 1 scripted ''key'' (JStr ''J1'') diagnose_url
         \<lparr>world = [Inr (ok_json running), Inr (ok_json succeeded), Inr (ok_bytes [0, 1, 255])],
          files = Map.empty, unwritable = {},
          trace = [Request (post_request ''key'' diagnose_url
                              (JObj [(''input'', JStr ''dlb://in/v.mp4'')])),
                   Print [PStr (CHR 0x0A # ''Diagnosing your media file...'')],
                   Print [PStr ''Job ID: '', PVal (JStr ''J1'')]]\<rparr>
       = Some \<lparr>world = [Inr (ok_json succeeded), Inr (ok_bytes [0, 1, 255])],
               files = Map.empty, unwritable = {},
               trace = [Request (post_request ''key'' diagnose_url
                                   (JObj [(''input'', JStr ''dlb://in/v.mp4'')])),
                        Print [PStr (CHR 0x0A # ''Diagnosing your media file...'')],
                        Print [PStr ''Job ID: '', PVal (JStr ''J1'')],
                        Request (status_request ''key'' (JStr ''J1'') diagnose_url),
                        Print [PVal running], Sleep 10]\<rparr>
   \<and> requests_of (trace (pass_state (poll_once scripted ''key'' (JStr ''J1'') diagnose_url
         \<lparr>world = [Inr (ok_json succeeded), Inr (ok_bytes [0, 1, 255])],
          files = Map.empty, unwritable = {},
          trace = [Request (post_request ''key'' diagnose_url
                              (JObj [(''input'', JStr ''dlb://in/v.mp4'')])),
                   Print [PStr (CHR 0x0A # ''Diagnosing your media file...'')],
                   Print [PStr ''Job ID: '', PVal (JStr ''J1'')],
                   Request (status_request ''key'' (JStr ''J1'') diagnose_url),
                   Print [PVal running], Sleep 10]\<rparr>)))
       = post_request ''key'' diagnose_url (JObj [(''input'', JStr ''dlb://in/v.mp4'')])
           # replicate 2 (status_request ''key'' (JStr ''J1'') diagnose_url)
   \<and> req_params (status_request ''key'' (JStr ''J1'') diagnose_url) = [(''job_id'', JStr ''J1'')]"
proof -
  let ?rest = "[Inr (ok_json running), Inr (ok_json succeeded), Inr (ok_bytes [0, 1, 255])]
                 :: (string + response) list"
  let ?ini = "init [Inr (ok_json created), Inr (ok_json running), Inr (ok_json succeeded),
                    Inr (ok_bytes [0, 1, 255])] :: (string + response) list state"
  let ?tpost = "post_request ''key'' transcode_url (JObj [])"
  let ?treq = "status_request ''key'' (JStr ''J1'') transcode_url"
  let ?dpost = "post_request ''key'' diagnose_url (JObj [(''input'', JStr ''dlb://in/v.mp4'')])"
  let ?dreq = "status_request ''key'' (JStr ''J1'') diagnose_url"
  let ?down = "download_request ''key'' ''dlb://out/v.mp4''"
  let ?tmade = "\<lparr>world = ?rest, files = Map.empty, unwritable = {}, trace = [Request ?tpost]\<rparr>
                 :: (string + response) list state"
  let ?dmade = "\<lparr>world = ?rest, files = Map.empty, unwritable = {}, trace = [Request ?dpost]\<rparr>
                 :: (string + response) list state"
  let ?ttold = "py_print [PStr ''Job ID: '', PVal (JStr ''J1'')]
                  (py_print [PStr (CHR 0x0A # ''Transcoding your media file...'')] ?tmade)"
  let ?dtold = "py_print [PStr ''Job ID: '', PVal (JStr ''J1'')]
                  (py_print [PStr (CHR 0x0A # ''Diagnosing your media file...'')] ?dmade)"
  let ?dtold' = "\<lparr>world = ?rest, files = Map.empty, unwritable = {},
               trace = [Request ?dpost,
                        Print [PStr (CHR 0x0A # ''Diagnosing your media file...'')],
                        Print [PStr ''Job ID: '', PVal (JStr ''J1'')]]\<rparr>
                 :: (string + response) list state"
  let ?tmid = "\<lparr>world = [Inr (ok_json succeeded), Inr (ok_bytes [0, 1, 255])],
               files = Map.empty, unwritable = {},
               trace = [Request ?tpost,
                        Print [PStr (CHR 0x0A # ''Transcoding your media file...'')],
                        Print [PStr ''Job ID: '', PVal (JStr ''J1'')],
                        Request ?treq, Print [PVal running], Sleep 10]\<rparr>
                 :: (string + response) list state"
  let ?dmid = "\<lparr>world = [Inr (ok_json succeeded), Inr (ok_bytes [0, 1, 255])],
               files = Map.empty, unwritable = {},
               trace = [Request ?dpost,
                        Print [PStr (CHR 0x0A # ''Diagnosing your media file...'')],
                        Print [PStr ''Job ID: '', PVal (JStr ''J1'')],
                        Request ?dreq, Print [PVal running], Sleep 10]\<rparr>
                 :: (string + response) list state"
  let ?tlast = "\<lparr>world = [Inr (ok_bytes [0, 1, 255])], files = Map.empty, unwritable = {},
               trace = [Request ?tpost,
                        Print [PStr (CHR 0x0A # ''Transcoding your media file...'')],
                        Print [PStr ''Job ID: '', PVal (JStr ''J1'')],
                        Request ?treq, Print [PVal running], Sleep 10, Request ?treq]\<rparr>
                 :: (string + response) list state"
  let ?dlast = "\<lparr>world = [Inr (ok_bytes [0, 1, 255])], files = Map.empty, unwritable = {},
               trace = [Request ?dpost,
                        Print [PStr (CHR 0x0A # ''Diagnosing your media file...'')],
                        Print [PStr ''Job ID: '', PVal (JStr ''J1'')],
                        Request ?dreq, Print [PVal running], Sleep 10, Request ?dreq]\<rparr>
                 :: (string + response) list state"
  let ?tend = "\<lparr>world = [], files = [''out.mp4'' \<mapsto> [0, 1, 255]], unwritable = {},
           trace = [Request ?tpost,
                    Print [PStr (CHR 0x0A # ''Transcoding your media file...'')],
                    Print [PStr ''Job ID: '', PVal (JStr ''J1'')],
                    Request ?treq, Print [PVal running], Sleep 10, Request ?treq,
                    Request ?down,
                    Print [PStr (CHR 0x0A #
                      ''Downloading from https://api.dolby.com/media/output into out.mp4'')]]\<rparr>
                 :: (string + response) list state"
  let ?dend = "\<lparr>world = [Inr (ok_bytes [0, 1, 255])], files = Map.empty, unwritable = {},
           trace = [Request ?dpost,
                    Print [PStr (CHR 0x0A # ''Diagnosing your media file...'')],
                    Print [PStr ''Job ID: '', PVal (JStr ''J1'')],
                    Request ?dreq, Print [PVal running], Sleep 10, Request ?dreq,
                    Print [PStr (CHR 0x0A # ''Media Info: ''),
                           PVal (JObj [(''codec'', JStr ''h264'')])]]\<rparr>
                 :: (string + response) list state"
  have a: "200 \<le> status_code (ok_json created)" and b: "status_code (ok_json created) < 300"
    and c: "resp_json (ok_json created) = Some (JObj [(''job_id'', JStr ''J1'')])"
    by (simp_all add: ok_json_def created_def)
  have d: "map_of [(''job_id'', JStr ''J1'')] ''job_id'' = Some (JStr ''J1'')"
    by simp
  have w: "scripted (world ?ini) rq = (Inr (ok_json created), ?rest)" for rq
    by (simp add: init_def)
  \<comment> \<open>the run of transcode\<close>
  have tc: "transcode_create scripted ''key'' (JObj []) ?ini = (Inr (JStr ''J1''), ?tmade)"
    by (simp add: transcode_create_def client_defs)
  have tr: "retries 1 scripted ''key'' (JStr ''J1'') transcode_url ?ttold = Some ?tmid"
    by (simp add: client_defs)
  have ts: "check_job_status scripted ''key'' (JStr ''J1'') transcode_url ?tmid
              = (Inr succeeded, ?tlast)"
    by (simp add: client_defs)
  have st: "subscript succeeded ''status'' = Inr (JStr ''Success'')"
    by (simp add: succeeded_def)
  have "poll_loop scripted ''key''
          (\<lambda>job_response. download_media scripted ''key'' ''out.mp4'' ''dlb://out/v.mp4'')
          (JStr ''J1'') transcode_url ?ttold
        = Some (download_media scripted ''key'' ''out.mp4'' ''dlb://out/v.mp4'' ?tlast)"
    using tr ts st by (rule poll_loop_success)
  with tc have "transcode scripted ''key'' ''dlb://out/v.mp4'' ''out.mp4'' (JObj []) ?ini
                  = Some (download_media scripted ''key'' ''out.mp4'' ''dlb://out/v.mp4'' ?tlast)"
    by (simp add: transcode_def Let_def)
  then have t: "transcode scripted ''key'' ''dlb://out/v.mp4'' ''out.mp4'' (JObj []) ?ini
                  = Some (Inr (), ?tend)"
    by (simp add: download_defs client_defs copyfileobj_append)
  \<comment> \<open>the run of diagnose\<close>
  have dc: "diagnose_create scripted ''key'' ''dlb://in/v.mp4'' ?ini = (Inr (JStr ''J1''), ?dmade)"
    by (simp add: diagnose_create_def client_defs)
  have dr: "retries 1 scripted ''key'' (JStr ''J1'') diagnose_url ?dtold = Some ?dmid"
    by (simp add: client_defs)
  have ds: "check_job_status scripted ''key'' (JStr ''J1'') diagnose_url ?dmid
              = (Inr succeeded, ?dlast)"
    by (simp add: client_defs)
  have "poll_loop scripted ''key'' diagnose_result (JStr ''J1'') diagnose_url ?dtold
        = Some (diagnose_result succeeded ?dlast)"
    using dr ds st by (rule poll_loop_success)
  with dc have "diagnose scripted ''key'' ''dlb://in/v.mp4'' ?ini
                  = Some (diagnose_result succeeded ?dlast)"
    by (simp add: diagnose_def Let_def)
  then have dg: "diagnose scripted ''key'' ''dlb://in/v.mp4'' ?ini
                  = Some (Inr (JObj [(''codec'', JStr ''h264'')]), ?dend)"
    by (simp add: diagnose_result_def succeeded_def py_print_def)
  \<comment> \<open>the theorem at this run\<close>
  note T = job_id_extracted [where http = scripted and s = ?ini and api_key = "''key''"
      and url = diagnose_url and body = "JObj []" and inp = "''dlb://in/v.mp4''"
      and transcoded_media_url = "''dlb://out/v.mp4''" and output_path = "''out.mp4''"
      and w' = ?rest, OF a b c d]
  from T [THEN conjunct1, THEN mp, OF w] obtain t1
    where t1: "transcode_create scripted ''key'' (JObj []) ?ini = (Inr (JStr ''J1''), t1)"
      and t_ends: "\<forall>r s'. transcode scripted ''key'' ''dlb://out/v.mp4'' ''out.mp4'' (JObj []) ?ini
                            = Some (r, s')
             \<longrightarrow> (\<exists>n. requests_of (trace s') = requests_of (trace t1) @ replicate (Suc n) ?treq
                    \<or> requests_of (trace s')
                       = requests_of (trace t1) @ replicate (Suc n) ?treq @ [?down])"
    by blast
  from t1 tc have "t1 = ?tmade" by simp
  with t_ends [rule_format, OF t]
  have "\<exists>n. requests_of (trace ?tend) = requests_of (trace ?tmade) @ replicate (Suc n) ?treq
          \<or> requests_of (trace ?tend)
             = requests_of (trace ?tmade) @ replicate (Suc n) ?treq @ [?down]"
    by simp
  then have tq: "\<exists>n. [?tpost, ?treq, ?treq, ?down] = ?tpost # replicate (Suc n) ?treq
          \<or> [?tpost, ?treq, ?treq, ?down] = ?tpost # replicate (Suc n) ?treq @ [?down]"
    by simp
  from T [THEN conjunct2, THEN conjunct1, THEN mp, OF w] obtain d1
    where d1: "diagnose_create scripted ''key'' ''dlb://in/v.mp4'' ?ini = (Inr (JStr ''J1''), d1)"
      and d_ends: "\<forall>r s'. diagnose scripted ''key'' ''dlb://in/v.mp4'' ?ini = Some (r, s')
             \<longrightarrow> (\<exists>n. requests_of (trace s') = requests_of (trace d1) @ replicate (Suc n) ?dreq)"
      and d_polls: "\<forall>n tn. retries n scripted ''key'' (JStr ''J1'') diagnose_url
                             (py_print [PStr ''Job ID: '', PVal (JStr ''J1'')]
                               (py_print [PStr (CHR 0x0A # ''Diagnosing your media file...'')] d1))
                             = Some tn
             \<longrightarrow> diagnose scripted ''key'' ''dlb://in/v.mp4'' ?ini =
                   poll_loop scripted ''key'' diagnose_result (JStr ''J1'') diagnose_url tn
                 \<and> requests_of (trace tn) = requests_of (trace d1) @ replicate n ?dreq
                 \<and> requests_of (trace (pass_state
                       (poll_once scripted ''key'' (JStr ''J1'') diagnose_url tn)))
                     = requests_of (trace d1) @ replicate (Suc n) ?dreq"
    by blast
  from d1 dc have d1_eq: "d1 = ?dmade" by simp
  with d_ends [rule_format, OF dg]
  have "\<exists>n. requests_of (trace ?dend) = requests_of (trace ?dmade) @ replicate (Suc n) ?dreq"
    by simp
  then have dq: "\<exists>n. [?dpost, ?dreq, ?dreq] = ?dpost # replicate (Suc n) ?dreq"
    by simp
  have dr': "retries 1 scripted ''key'' (JStr ''J1'') diagnose_url ?dtold' = Some ?dmid"
    using dr by (simp add: py_print_def)
  from dr d1_eq have "retries 1 scripted ''key'' (JStr ''J1'') diagnose_url
                             (py_print [PStr ''Job ID: '', PVal (JStr ''J1'')]
                               (py_print [PStr (CHR 0x0A # ''Diagnosing your media file...'')] d1))
                        = Some ?dmid"
    by simp
  from d_polls [rule_format, OF this] d1_eq
  have "requests_of (trace (pass_state (poll_once scripted ''key'' (JStr ''J1'') diagnose_url ?dmid)))
          = requests_of (trace ?dmade) @ replicate (Suc 1) ?dreq"
    by simp
  then have pq: "requests_of (trace (pass_state
                    (poll_once scripted ''key'' (JStr ''J1'') diagnose_url ?dmid)))
                   = ?dpost # replicate 2 ?dreq"
    by (simp add: numeral_2_eq_2)
  from T have rp: "req_params ?dreq = [(''job_id'', JStr ''J1'')]"
    by blast
  show ?thesis
    apply (intro conjI)
              apply (rule a)
             apply (rule b)
            apply (rule c)
           apply (rule d)
          apply (rule w)
         apply (rule t)
        apply (rule tq)
       apply (rule dg)
      apply (rule dq)
     apply (rule dr')
    apply (rule pq)
    apply (rule rp)
    done
qed

end
